theory Spec2Isabelle
  imports Complex_Main
begin

section \<open>JavaScript values\<close>

text \<open>
  A number is a finite value, \<^verbatim>\<open>NaN\<close> or an infinity. Every finite double is a real; the
  two zeros are one value here (they are equal under \<^verbatim>\<open>===\<close>, both falsy, both printed
  \<^verbatim>\<open>0\<close>).
\<close>

datatype number = Finite real | NaN | PosInfinity | NegInfinity

text \<open>
  The values the server actions handle: what \<^verbatim>\<open>JSON.parse\<close> returns, \<^verbatim>\<open>undefined\<close>, and
  the built-in objects a plain object inherits from \<^verbatim>\<open>Object.prototype\<close> (\<open>JBuiltin\<close>, named
  by the property they are inherited under). A string is the list of the bytes of its UTF-8
  form.
\<close>

datatype jsval =
    JUndefined
  | JNull
  | JBool bool
  | JNum number
  | JStr string
  | JArr "jsval list"
  | JObj "(string \<times> jsval) list"
  | JBuiltin string

text \<open>
  Every \<^verbatim>\<open>throw\<close> of the sources and every exception of the runtime they can meet:
  \<^item> \<open>Unauthorized\<close>, \<open>UserNotFound\<close>, \<open>UserRegistrationFailed\<close>: \<^verbatim>\<open>new Error("Unauthorized")\<close>,
    \<^verbatim>\<open>new Error("User not found")\<close>, \<^verbatim>\<open>new Error("User registration failed")\<close>;
  \<^item> \<open>ModelOutdated\<close>: \<^verbatim>\<open>new Error("Model name is outdated. ...")\<close> of \<^verbatim>\<open>safeGenerate\<close>;
  \<^item> \<open>GeneratorError st\<close>: the error \<^verbatim>\<open>model.generateContent\<close> threw, with its \<^verbatim>\<open>status\<close>;
  \<^item> \<open>ResponseTextError\<close>: \<^verbatim>\<open>result.response.text()\<close> threw;
  \<^item> \<open>SyntaxError\<close>: \<^verbatim>\<open>JSON.parse\<close> threw; \<open>TypeError\<close>: the runtime's TypeError;
  \<^item> \<open>StoreError\<close>: the store client threw;
  \<^item> \<open>FailedInsights e\<close>: \<^verbatim>\<open>new Error("Failed to generate AI insights: " + e.message)\<close>;
  \<^item> \<open>FailedUpdateProfile e\<close>: \<^verbatim>\<open>new Error("Failed to update profile: " + e.message)\<close>;
  \<^item> \<open>FailedCoverLetter\<close>, \<open>FailedSaveQuiz\<close>, \<open>FailedFetchAssessments\<close>: the fixed messages
    of the \<^verbatim>\<open>catch\<close> blocks of those actions.
\<close>

datatype error =
    Unauthorized
  | UserNotFound
  | UserRegistrationFailed
  | ModelOutdated
  | GeneratorError "nat option"
  | ResponseTextError
  | SyntaxError
  | TypeError
  | StoreError
  | FailedInsights error
  | FailedUpdateProfile error
  | FailedCoverLetter
  | FailedSaveQuiz
  | FailedFetchAssessments

text \<open>
  The functions of the JavaScript runtime that the actions call and whose code is the
  runtime's, not the repository's: \<^verbatim>\<open>JSON.parse\<close> (\<open>None\<close> is its SyntaxError),
  \<^verbatim>\<open>String.prototype.trim\<close>, \<^verbatim>\<open>String.prototype.toUpperCase\<close> and the printing of a finite
  number (\<^verbatim>\<open>Number.prototype.toString\<close>). They are a parameter \<open>rt\<close> of every definition that
  uses one of them, and every general property below holds for every runtime.
\<close>

record runtime =
  JSON_parse :: "string \<Rightarrow> jsval option"
  trim :: "string \<Rightarrow> string"
  toUpperCase :: "string \<Rightarrow> string"
  number_toString :: "real \<Rightarrow> string"

text \<open>\<^verbatim>\<open>a || b\<close> on values: \<open>a\<close> unless it is falsy.\<close>

fun truthy :: "jsval \<Rightarrow> bool" where
  "truthy JUndefined = False"
| "truthy JNull = False"
| "truthy (JBool b) = b"
| "truthy (JNum n) = (case n of Finite x \<Rightarrow> x \<noteq> 0 | NaN \<Rightarrow> False | _ \<Rightarrow> True)"
| "truthy (JStr s) = (s \<noteq> [])"
| "truthy (JArr xs) = True"
| "truthy (JObj kv) = True"
| "truthy (JBuiltin k) = True"

definition or_else :: "jsval \<Rightarrow> jsval \<Rightarrow> jsval" where
  "or_else a b = (if truthy a then a else b)"

text \<open>
  \<^verbatim>\<open>a === b\<close>. Arrays and objects are compared by reference; the two operands of the one
  comparison in the sources come from different arguments of a server action, so they are
  never the same object. \<^verbatim>\<open>NaN\<close> is equal to nothing.
\<close>

definition strict_eq :: "jsval \<Rightarrow> jsval \<Rightarrow> bool" where
  "strict_eq a b =
     (case a of JArr xs \<Rightarrow> False | JObj kv \<Rightarrow> False | JNum NaN \<Rightarrow> False | _ \<Rightarrow> a = b)"

text \<open>
  Reading a property \<open>k\<close> of a parsed value, \<^verbatim>\<open>v.k\<close>. The sources read only
  \<^verbatim>\<open>salaryRanges\<close>, \<^verbatim>\<open>growthRate\<close>, \<^verbatim>\<open>demandLevel\<close>, \<^verbatim>\<open>topSkills\<close>, \<^verbatim>\<open>marketOutlook\<close>,
  \<^verbatim>\<open>keyTrends\<close>, \<^verbatim>\<open>recommendedSkills\<close>, \<^verbatim>\<open>questions\<close>, \<^verbatim>\<open>question\<close>, \<^verbatim>\<open>correctAnswer\<close>,
  \<^verbatim>\<open>explanation\<close>, \<^verbatim>\<open>tip\<close>, \<^verbatim>\<open>coverLetter\<close> and \<^verbatim>\<open>cover_letter\<close>: none is a property that
  arrays, strings, numbers, booleans or \<^verbatim>\<open>Object.prototype\<close> have of their own, so only an
  object's own entries answer. Reading from \<^verbatim>\<open>null\<close> or \<^verbatim>\<open>undefined\<close> throws a TypeError.
\<close>

fun own :: "jsval \<Rightarrow> string \<Rightarrow> jsval" where
  "own (JObj kv) k = (case map_of kv k of Some v \<Rightarrow> v | None \<Rightarrow> JUndefined)"
| "own v k = JUndefined"

definition get_prop :: "jsval \<Rightarrow> string \<Rightarrow> error + jsval" where
  "get_prop v k = (if v = JNull \<or> v = JUndefined then Inl TypeError else Inr (own v k))"

text \<open>
  Writing a property, \<^verbatim>\<open>v.k = x\<close>: objects and arrays take it; the files are modules, hence
  strict code, where the assignment to a primitive value throws a TypeError.
\<close>

fun assignable :: "jsval \<Rightarrow> bool" where
  "assignable (JObj kv) = True"
| "assignable (JArr xs) = True"
| "assignable (JBuiltin k) = True"
| "assignable v = False"

text \<open>
  The property key a value becomes in \<^verbatim>\<open>map[v]\<close> (ToPropertyKey): a string stays, a
  primitive is printed, an array joins its elements with commas (\<^verbatim>\<open>null\<close> and
  \<^verbatim>\<open>undefined\<close> elements as the empty string), a parsed object is \<^verbatim>\<open>[object Object]\<close> unless
  an entry of its own hides \<^verbatim>\<open>toString\<close> (then nothing callable returns a primitive, and a
  TypeError is thrown).
\<close>

definition print_number :: "runtime \<Rightarrow> number \<Rightarrow> string" where
  "print_number rt n =
     (case n of
        Finite x \<Rightarrow> number_toString rt x
      | NaN \<Rightarrow> ''NaN''
      | PosInfinity \<Rightarrow> ''Infinity''
      | NegInfinity \<Rightarrow> ''-Infinity'')"

fun toString :: "runtime \<Rightarrow> jsval \<Rightarrow> error + string"
  and join :: "runtime \<Rightarrow> jsval list \<Rightarrow> error + string" where
  "toString rt JUndefined = Inr ''undefined''"
| "toString rt JNull = Inr ''null''"
| "toString rt (JBool b) = Inr (if b then ''true'' else ''false'')"
| "toString rt (JNum n) = Inr (print_number rt n)"
| "toString rt (JStr s) = Inr s"
| "toString rt (JArr xs) = join rt xs"
| "toString rt (JObj kv) =
     (if ''toString'' \<in> set (map fst kv) then Inl TypeError else Inr ''[object Object]'')"
| "toString rt (JBuiltin k) =
     Inr (if k = ''__proto__'' then ''[object Object]''
          else ''function '' @ k @ ''() { [native code] }'')"
| "join rt [] = Inr []"
| "join rt (x # xs) =
     (case (if x = JUndefined \<or> x = JNull then Inr [] else toString rt x) of
        Inl e \<Rightarrow> Inl e
      | Inr a \<Rightarrow>
          (if xs = [] then Inr a
           else (case join rt xs of Inl e \<Rightarrow> Inl e | Inr b \<Rightarrow> Inr (a @ '','' @ b))))"

text \<open>
  \<^verbatim>\<open>map[v]\<close> for an object literal \<open>m\<close> with string values: an entry of its own, else what
  it inherits from \<^verbatim>\<open>Object.prototype\<close>, else \<^verbatim>\<open>undefined\<close>.
\<close>

definition object_prototype_keys :: "string list" where
  "object_prototype_keys =
     [''constructor'', ''__defineGetter__'', ''__defineSetter__'', ''hasOwnProperty'',
      ''__lookupGetter__'', ''__lookupSetter__'', ''isPrototypeOf'', ''propertyIsEnumerable'',
      ''toString'', ''valueOf'', ''__proto__'', ''toLocaleString'']"

definition literal_get ::
  "runtime \<Rightarrow> (string \<times> string) list \<Rightarrow> jsval \<Rightarrow> error + jsval" where
  "literal_get rt m v =
     (case toString rt v of
        Inl e \<Rightarrow> Inl e
      | Inr k \<Rightarrow>
          Inr (case map_of m k of
                 Some u \<Rightarrow> JStr u
               | None \<Rightarrow> if k \<in> set object_prototype_keys then JBuiltin k else JUndefined))"

section \<open>Cleaning the generator's text\<close>

text \<open>
  The fence, the tag \<^verbatim>\<open>json\<close> and the line feed are ASCII, and an ASCII byte of a UTF-8
  string is an ASCII character of the string: removing them from the bytes is removing them
  from the string.
\<close>

definition fence :: string where
  "fence = [CHR 0x60, CHR 0x60, CHR 0x60]"

definition skip_json :: "string \<Rightarrow> string" where
  "skip_json r = (if take 4 r = ''json'' then drop 4 r else r)"

definition skip_newline :: "string \<Rightarrow> string" where
  "skip_newline r = (if take 1 r = [CHR 0x0A] then drop 1 r else r)"

text \<open>
  The scheduled job: \<^verbatim>\<open>text.replace(/```(?:json)?\n?/g, "")\<close>, every fence with the
  \<^verbatim>\<open>json\<close> tag and the line break that may follow it.
\<close>

function strip_fences_batch :: "string \<Rightarrow> string" where
  "strip_fences_batch [] = []"
| "strip_fences_batch (c # cs) =
     (if take 3 (c # cs) = fence
      then strip_fences_batch (skip_newline (skip_json (drop 2 cs)))
      else c # strip_fences_batch cs)"
  by pat_completeness auto
termination
  by (relation "measure length") (auto simp: skip_json_def skip_newline_def)

text \<open>The interactive path: \<^verbatim>\<open>text.replace(/```json|```/g, "")\<close>.\<close>

function strip_fences :: "string \<Rightarrow> string" where
  "strip_fences [] = []"
| "strip_fences (c # cs) =
     (if take 3 (c # cs) = fence then strip_fences (skip_json (drop 2 cs))
      else c # strip_fences cs)"
  by pat_completeness auto
termination
  by (relation "measure length") (auto simp: skip_json_def)

definition cleanedText :: "runtime \<Rightarrow> string \<Rightarrow> string" where
  "cleanedText rt text = trim rt (strip_fences_batch text)"

definition cleaned_interactive :: "runtime \<Rightarrow> string \<Rightarrow> string" where
  "cleaned_interactive rt text = trim rt (strip_fences (trim rt text))"

section \<open>The store, the generator and the world an action runs in\<close>

text \<open>
  The payload of an insight record: the seven properties the actions read from the
  generator's document and write to the store.
\<close>

record insights =
  salaryRanges :: jsval
  growthRate :: jsval
  demandLevel :: jsval
  topSkills :: jsval
  marketOutlook :: jsval
  keyTrends :: jsval
  recommendedSkills :: jsval

text \<open>
  The rows of the store. The schema is not part of the sources: the store keeps what it is
  given, a row of \<open>industryInsight\<close> is found by its unique \<open>industry\<close>, and a user's
  \<^verbatim>\<open>industryInsight\<close> is the row of the user's \<open>industry\<close>. Times are milliseconds.
\<close>

record industryInsight =
  industry :: string
  payload :: insights
  lastUpdated :: nat
  nextUpdate :: nat

record user =
  user_id :: string
  clerkUserId :: string
  user_industry :: "string option"
  experience :: "int option"
  bio :: "string option"
  skills :: "string list"

record letterData =
  jobTitle :: string
  companyName :: string
  jobDescription :: string

record coverLetter = letterData +
  letter_id :: nat
  content :: jsval
  status :: string
  letter_userId :: string

record questionResult =
  question :: jsval
  answer :: jsval
  userAnswer :: jsval
  isCorrect :: bool
  explanation :: jsval

record assessment =
  assessment_id :: nat
  assessment_userId :: string
  quizScore :: jsval
  questions :: "questionResult list"
  category :: string
  improvementTip :: jsval

record profileData =
  data_industry :: string
  data_experience :: "int option"
  data_bio :: "string option"
  data_skills :: "string list"

text \<open>The prompts, by the template that builds them and the values it interpolates.\<close>

datatype prompt =
    WeeklyInsightsPrompt string
  | InsightsPrompt "string option"
  | QuizPrompt "string option"
  | TipPrompt "string option" "string list"
  | CoverLetterPrompt letterData user

text \<open>
  One call of \<^verbatim>\<open>model.generateContent\<close> either throws an error with a \<^verbatim>\<open>status\<close>
  (\<open>Fails\<close>; 429 is the rate limit, 404 an unknown model) or returns a response
  (\<open>Answers\<close>) whose text is \<open>Some t\<close>, or \<open>None\<close> when the response carries no text: then
  \<^verbatim>\<open>response.text()\<close> throws and \<^verbatim>\<open>candidates?.[0]?.content?.parts?.[0]?.text\<close> is undefined.
\<close>

datatype reply = Fails "nat option" | Answers "string option"

datatype event =
    StoreRead string
  | StoreWrite string
  | GeneratorCall prompt
  | Sleep nat

text \<open>
  The world: the caller's identity (\<^verbatim>\<open>auth()\<close>), the store and whether it answers
  (\<open>db_up\<close>; a store that is down throws on every call), the generator as the sequence of
  its replies with the number of calls made so far, the clock, and the trace of every
  store access, generator call and sleep, in order.
\<close>

record world =
  identity :: "string option"
  db_up :: bool
  users :: "user list"
  industryInsights :: "industryInsight list"
  coverLetters :: "coverLetter list"
  assessments :: "assessment list"
  next_id :: nat
  replies :: "nat \<Rightarrow> reply"
  gen_calls :: nat
  clock :: nat
  trace :: "event list"

definition emit :: "event \<Rightarrow> world \<Rightarrow> world" where
  "emit e s = s\<lparr>trace := trace s @ [e]\<rparr>"

definition auth :: "world \<Rightarrow> string option" where
  "auth s = identity s"

definition generateContent :: "prompt \<Rightarrow> world \<Rightarrow> reply \<times> world" where
  "generateContent p s =
     (replies s (gen_calls s), (emit (GeneratorCall p) s)\<lparr>gen_calls := Suc (gen_calls s)\<rparr>)"

definition sleep :: "nat \<Rightarrow> world \<Rightarrow> world" where
  "sleep ms s = (emit (Sleep ms) s)\<lparr>clock := clock s + ms\<rparr>"

definition week :: nat where
  "week = 7 * 24 * 60 * 60 * 1000"

definition user_findUnique :: "string \<Rightarrow> world \<Rightarrow> (error + user option) \<times> world" where
  "user_findUnique cid s =
     (if db_up s then Inr (find (\<lambda>u. clerkUserId u = cid) (users s)) else Inl StoreError,
      emit (StoreRead ''user'') s)"

definition insight_of :: "user \<Rightarrow> world \<Rightarrow> industryInsight option" where
  "insight_of u s =
     (case user_industry u of
        None \<Rightarrow> None
      | Some k \<Rightarrow> find (\<lambda>r. industry r = k) (industryInsights s))"

section \<open>The generator with retries (actions/interview.js)\<close>

fun safeGenerate :: "prompt \<Rightarrow> nat \<Rightarrow> world \<Rightarrow> (error + string option) \<times> world" where
  "safeGenerate p retries s =
     (case generateContent p s of
        (Answers t, s1) \<Rightarrow> (Inr t, s1)
      | (Fails st, s1) \<Rightarrow>
          if st = Some 404 then (Inl ModelOutdated, s1)
          else if retries > 0 \<and> st = Some 429
               then safeGenerate p (retries - 1) (sleep 30000 s1)
               else (Inl (GeneratorError st), s1))"

section \<open>Enum normalisation\<close>

text \<open>The scheduled job's \<^verbatim>\<open>normalizeEnum\<close>: \<^verbatim>\<open>value?.toUpperCase()\<close>, then \<^verbatim>\<open>allowed.includes(v) ? v : fallback\<close>.\<close>

definition optional_toUpperCase :: "runtime \<Rightarrow> jsval \<Rightarrow> error + jsval" where
  "optional_toUpperCase rt v =
     (case v of
        JUndefined \<Rightarrow> Inr JUndefined
      | JNull \<Rightarrow> Inr JUndefined
      | JStr s \<Rightarrow> Inr (JStr (toUpperCase rt s))
      | _ \<Rightarrow> Inl TypeError)"

definition array_includes :: "string list \<Rightarrow> jsval \<Rightarrow> bool" where
  "array_includes allowed v = (case v of JStr s \<Rightarrow> s \<in> set allowed | _ \<Rightarrow> False)"

definition normalizeEnum ::
  "runtime \<Rightarrow> jsval \<Rightarrow> string list \<Rightarrow> string \<Rightarrow> error + jsval" where
  "normalizeEnum rt v allowed fallback =
     (case optional_toUpperCase rt v of
        Inl e \<Rightarrow> Inl e
      | Inr u \<Rightarrow> Inr (if array_includes allowed u then u else JStr fallback))"

text \<open>
  Steps 5 and 6 of the scheduled job on the parsed document: both enum fields normalised
  and assigned back, then the data of the update with its \<^verbatim>\<open>|| []\<close> and \<^verbatim>\<open>|| 0\<close> defaults.
\<close>

definition weekly_data :: "runtime \<Rightarrow> jsval \<Rightarrow> error + insights" where
  "weekly_data rt doc =
     (case get_prop doc ''demandLevel'' of
        Inl e \<Rightarrow> Inl e
      | Inr d \<Rightarrow>
          (case normalizeEnum rt d [''HIGH'', ''MEDIUM'', ''LOW''] ''MEDIUM'' of
             Inl e \<Rightarrow> Inl e
           | Inr demand \<Rightarrow>
               if assignable doc then
                 (case normalizeEnum rt (own doc ''marketOutlook'')
                         [''POSITIVE'', ''NEUTRAL'', ''NEGATIVE''] ''NEUTRAL'' of
                    Inl e \<Rightarrow> Inl e
                  | Inr outlook \<Rightarrow>
                      Inr \<lparr>salaryRanges = or_else (own doc ''salaryRanges'') (JArr []),
                           growthRate = or_else (own doc ''growthRate'') (JNum (Finite 0)),
                           demandLevel = demand,
                           topSkills = or_else (own doc ''topSkills'') (JArr []),
                           marketOutlook = outlook,
                           keyTrends = or_else (own doc ''keyTrends'') (JArr []),
                           recommendedSkills = or_else (own doc ''recommendedSkills'') (JArr [])\<rparr>)
               else Inl TypeError))"

text \<open>The interactive path's two object literals and its \<^verbatim>\<open>map[value] || default\<close>.\<close>

definition demandLevelMap :: "(string \<times> string) list" where
  "demandLevelMap = [(''High'', ''HIGH''), (''Medium'', ''MEDIUM''), (''Low'', ''LOW'')]"

definition marketOutlookMap :: "(string \<times> string) list" where
  "marketOutlookMap =
     [(''Positive'', ''POSITIVE''), (''Neutral'', ''NEUTRAL''), (''Negative'', ''NEGATIVE'')]"

definition map_enum ::
  "runtime \<Rightarrow> (string \<times> string) list \<Rightarrow> jsval \<Rightarrow> string \<Rightarrow> error + jsval" where
  "map_enum rt m v fallback =
     (case literal_get rt m v of Inl e \<Rightarrow> Inl e | Inr u \<Rightarrow> Inr (or_else u (JStr fallback)))"

definition mapped_insights :: "runtime \<Rightarrow> jsval \<Rightarrow> error + insights" where
  "mapped_insights rt parsed =
     (case get_prop parsed ''demandLevel'' of
        Inl e \<Rightarrow> Inl e
      | Inr d \<Rightarrow>
          (case map_enum rt demandLevelMap d ''MEDIUM'' of
             Inl e \<Rightarrow> Inl e
           | Inr demand \<Rightarrow>
               if assignable parsed then
                 (case map_enum rt marketOutlookMap (own parsed ''marketOutlook'')
                         ''NEUTRAL'' of
                    Inl e \<Rightarrow> Inl e
                  | Inr outlook \<Rightarrow>
                      Inr \<lparr>salaryRanges = own parsed ''salaryRanges'',
                           growthRate = own parsed ''growthRate'',
                           demandLevel = demand,
                           topSkills = own parsed ''topSkills'',
                           marketOutlook = outlook,
                           keyTrends = own parsed ''keyTrends'',
                           recommendedSkills = own parsed ''recommendedSkills''\<rparr>)
               else Inl TypeError))"

section \<open>Industry insights on request (the dashboard actions)\<close>

text \<open>
  \<^verbatim>\<open>generateAIInsights\<close>: one direct generator call, no retry; everything thrown inside
  its \<^verbatim>\<open>try\<close> is rethrown as "Failed to generate AI insights".
\<close>

definition generateAIInsights ::
  "runtime \<Rightarrow> string option \<Rightarrow> world \<Rightarrow> (error + insights) \<times> world" where
  "generateAIInsights rt ind s =
     (case generateContent (InsightsPrompt ind) s of
        (Fails st, s1) \<Rightarrow> (Inl (FailedInsights (GeneratorError st)), s1)
      | (Answers None, s1) \<Rightarrow> (Inl (FailedInsights ResponseTextError), s1)
      | (Answers (Some t), s1) \<Rightarrow>
          (case JSON_parse rt (cleaned_interactive rt t) of
             None \<Rightarrow> (Inl (FailedInsights SyntaxError), s1)
           | Some parsed \<Rightarrow>
               (case mapped_insights rt parsed of
                  Inl e \<Rightarrow> (Inl (FailedInsights e), s1)
                | Inr ins \<Rightarrow> (Inr ins, s1))))"

text \<open>
  \<^verbatim>\<open>new Date.now()\<close> in the \<^verbatim>\<open>update\<close> part of the upsert's argument is
  \<^verbatim>\<open>new (Date.now)()\<close>: \<^verbatim>\<open>Date.now\<close> is not a constructor, so evaluating it throws a
  TypeError. The argument is evaluated before \<^verbatim>\<open>db.industryInsight.upsert\<close> is called.
\<close>

definition new_Date_now :: "error + nat" where
  "new_Date_now = Inl TypeError"

text \<open>
  The upsert by \<^verbatim>\<open>industry\<close>: the \<^verbatim>\<open>update\<close> part sets the payload and
  \<^verbatim>\<open>nextUpdate\<close> (its \<^verbatim>\<open>lastUpdate\<close> names no column of the row), the \<^verbatim>\<open>create\<close> part
  makes the row with \<^verbatim>\<open>lastUpdated\<close> and \<^verbatim>\<open>nextUpdate\<close>.
\<close>

definition industryInsight_upsert ::
  "user \<Rightarrow> insights \<Rightarrow> nat \<Rightarrow> world \<Rightarrow> (error + industryInsight) \<times> world" where
  "industryInsight_upsert u ins lastUpdate s =
     (let s1 = emit (StoreWrite ''industryInsight'') s in
      if db_up s then
        (case user_industry u of
           None \<Rightarrow> (Inl StoreError, s1)
         | Some k \<Rightarrow>
             (case find (\<lambda>r. industry r = k) (industryInsights s) of
                Some r \<Rightarrow>
                  (let r' = r\<lparr>payload := ins, nextUpdate := clock s + week\<rparr>
                   in (Inr r',
                       s1\<lparr>industryInsights :=
                            map (\<lambda>x. if industry x = k then r' else x) (industryInsights s)\<rparr>))
              | None \<Rightarrow>
                  (let r' = \<lparr>industry = k, payload = ins, lastUpdated = clock s,
                             nextUpdate = clock s + week\<rparr>
                   in (Inr r', s1\<lparr>industryInsights := industryInsights s @ [r']\<rparr>))))
      else (Inl StoreError, s1))"

definition refreshInsight ::
  "runtime \<Rightarrow> user \<Rightarrow> world \<Rightarrow> (error + industryInsight) \<times> world" where
  "refreshInsight rt u s =
     (case generateAIInsights rt (user_industry u) s of
        (Inl e, s1) \<Rightarrow> (Inl e, s1)
      | (Inr ins, s1) \<Rightarrow>
          (case new_Date_now of
             Inl e \<Rightarrow> (Inl e, s1)
           | Inr t \<Rightarrow> industryInsight_upsert u ins t s1))"

definition getIndustryInsights ::
  "runtime \<Rightarrow> world \<Rightarrow> (error + industryInsight) \<times> world" where
  "getIndustryInsights rt s =
     (case auth s of
        None \<Rightarrow> (Inl Unauthorized, s)
      | Some userId \<Rightarrow>
          (case user_findUnique userId s of
             (Inl e, s1) \<Rightarrow> (Inl e, s1)
           | (Inr None, s1) \<Rightarrow> (Inl UserNotFound, s1)
           | (Inr (Some u), s1) \<Rightarrow>
               (case insight_of u s1 of
                  None \<Rightarrow> refreshInsight rt u s1
                | Some r \<Rightarrow>
                    if nextUpdate r \<le> clock s1 then refreshInsight rt u s1
                    else (Inr r, s1))))"

section \<open>The scheduled job (generateIndustryInsights)\<close>

definition industryInsight_update ::
  "string \<Rightarrow> insights \<Rightarrow> world \<Rightarrow> (error + unit) \<times> world" where
  "industryInsight_update k ins s =
     (let s1 = emit (StoreWrite ''industryInsight'') s in
      if db_up s \<and> find (\<lambda>r. industry r = k) (industryInsights s) \<noteq> None then
        (Inr (),
         s1\<lparr>industryInsights :=
              map (\<lambda>r. if industry r = k
                        then r\<lparr>payload := ins, lastUpdated := clock s,
                               nextUpdate := clock s + week\<rparr>
                        else r)
                  (industryInsights s)\<rparr>)
      else (Inl StoreError, s1))"

text \<open>\<^verbatim>\<open>res.response?.candidates?.[0]?.content?.parts?.[0]?.text || ""\<close>.\<close>

definition candidate_text :: "string option \<Rightarrow> string" where
  "candidate_text t = (case t of None \<Rightarrow> [] | Some x \<Rightarrow> x)"

text \<open>
  The loop over the industries, one after the other (the job framework's steps are taken
  to run once each, in program order): a generator failure and a TypeError of the
  normalisation are not caught and end the run; a document that does not parse is skipped
  (\<^verbatim>\<open>continue\<close>).
\<close>

fun insights_loop ::
  "runtime \<Rightarrow> string list \<Rightarrow> world \<Rightarrow> (error + unit) \<times> world" where
  "insights_loop rt [] s = (Inr (), s)"
| "insights_loop rt (k # ks) s =
     (case generateContent (WeeklyInsightsPrompt k) s of
        (Fails st, s1) \<Rightarrow> (Inl (GeneratorError st), s1)
      | (Answers t, s1) \<Rightarrow>
          (case JSON_parse rt (cleanedText rt (candidate_text t)) of
             None \<Rightarrow> insights_loop rt ks s1
           | Some doc \<Rightarrow>
               (case weekly_data rt doc of
                  Inl e \<Rightarrow> (Inl e, s1)
                | Inr ins \<Rightarrow>
                    (case industryInsight_update k ins s1 of
                       (Inl e, s2) \<Rightarrow> (Inl e, s2)
                     | (Inr _, s2) \<Rightarrow> insights_loop rt ks s2))))"

definition generateIndustryInsights ::
  "runtime \<Rightarrow> world \<Rightarrow> (error + unit) \<times> world" where
  "generateIndustryInsights rt s =
     (let s1 = emit (StoreRead ''industryInsight'') s in
      if db_up s then insights_loop rt (map industry (industryInsights s)) s1
      else (Inl StoreError, s1))"

section \<open>The quiz actions (actions/interview.js)\<close>

definition quiz_fallback :: jsval where
  "quiz_fallback =
     JArr [JObj [(''question'', JStr ''Fallback question...''),
                 (''options'', JArr [JStr ''A'', JStr ''B'', JStr ''C'', JStr ''D'']),
                 (''correctAnswer'', JStr ''A''),
                 (''explanation'', JStr ''Error fallback'')]]"

definition generateQuiz ::
  "runtime \<Rightarrow> world \<Rightarrow> (error + jsval) \<times> world" where
  "generateQuiz rt s =
     (case auth s of
        None \<Rightarrow> (Inl Unauthorized, s)
      | Some userId \<Rightarrow>
          (case user_findUnique userId s of
             (Inl e, s1) \<Rightarrow> (Inl e, s1)
           | (Inr None, s1) \<Rightarrow> (Inl UserNotFound, s1)
           | (Inr (Some u), s1) \<Rightarrow>
               (case safeGenerate (QuizPrompt (user_industry u)) 3 s1 of
                  (Inl e, s2) \<Rightarrow> (Inr quiz_fallback, s2)
                | (Inr None, s2) \<Rightarrow> (Inr quiz_fallback, s2)
                | (Inr (Some t), s2) \<Rightarrow>
                    (case JSON_parse rt t of
                       None \<Rightarrow> (Inr quiz_fallback, s2)
                     | Some quiz \<Rightarrow>
                         (case get_prop quiz ''questions'' of
                            Inl e \<Rightarrow> (Inr quiz_fallback, s2)
                          | Inr qs \<Rightarrow> (Inr qs, s2))))))"

text \<open>\<^verbatim>\<open>answers[index]\<close>: \<^verbatim>\<open>undefined\<close> past the end of the array.\<close>

definition index :: "jsval list \<Rightarrow> nat \<Rightarrow> jsval" where
  "index xs i = (if i < length xs then xs ! i else JUndefined)"

definition questionResult_of :: "jsval \<Rightarrow> jsval \<Rightarrow> error + questionResult" where
  "questionResult_of q a =
     (case get_prop q ''question'' of
        Inl e \<Rightarrow> Inl e
      | Inr qu \<Rightarrow>
          Inr \<lparr>question = qu, answer = own q ''correctAnswer'', userAnswer = a,
               isCorrect = strict_eq (own q ''correctAnswer'') a,
               explanation = own q ''explanation''\<rparr>)"

fun questionResults :: "jsval list \<Rightarrow> jsval list \<Rightarrow> nat \<Rightarrow> error + questionResult list" where
  "questionResults [] as i = Inr []"
| "questionResults (q # qs) as i =
     (case questionResult_of q (index as i) of
        Inl e \<Rightarrow> Inl e
      | Inr r \<Rightarrow>
          (case questionResults qs as (Suc i) of
             Inl e \<Rightarrow> Inl e
           | Inr rs \<Rightarrow> Inr (r # rs)))"

text \<open>The lines \<^verbatim>\<open>- ${q.question}\<close> of the improvement prompt: each question printed.\<close>

fun wrongQuestionsText :: "runtime \<Rightarrow> questionResult list \<Rightarrow> error + string list" where
  "wrongQuestionsText rt [] = Inr []"
| "wrongQuestionsText rt (r # rs) =
     (case toString rt (question r) of
        Inl e \<Rightarrow> Inl e
      | Inr l \<Rightarrow>
          (case wrongQuestionsText rt rs of
             Inl e \<Rightarrow> Inl e
           | Inr ls \<Rightarrow> Inr (l # ls)))"

definition fallback_tip :: jsval where
  "fallback_tip = JStr ''Keep practicing your technical skills to build confidence!''"

definition improvementTip_of ::
  "runtime \<Rightarrow> user \<Rightarrow> questionResult list \<Rightarrow> world
     \<Rightarrow> (error + jsval) \<times> world" where
  "improvementTip_of rt u wrongAnswers s =
     (if length wrongAnswers > 0 then
        (case wrongQuestionsText rt wrongAnswers of
           Inl e \<Rightarrow> (Inl e, s)
         | Inr ls \<Rightarrow>
             (case safeGenerate (TipPrompt (user_industry u) ls) 3 s of
                (Inl e, s1) \<Rightarrow> (Inr fallback_tip, s1)
              | (Inr None, s1) \<Rightarrow> (Inr fallback_tip, s1)
              | (Inr (Some t), s1) \<Rightarrow>
                  (case JSON_parse rt t of
                     None \<Rightarrow> (Inr fallback_tip, s1)
                   | Some jsonResponse \<Rightarrow>
                       (case get_prop jsonResponse ''tip'' of
                          Inl e \<Rightarrow> (Inr fallback_tip, s1)
                        | Inr tip \<Rightarrow> (Inr tip, s1)))))
      else (Inr JNull, s))"

definition assessment_create ::
  "user \<Rightarrow> jsval \<Rightarrow> questionResult list \<Rightarrow> jsval \<Rightarrow> world \<Rightarrow> (error + assessment) \<times> world" where
  "assessment_create u score results tip s =
     (let s1 = emit (StoreWrite ''assessment'') s in
      if db_up s then
        (let a = \<lparr>assessment_id = next_id s, assessment_userId = user_id u,
                  quizScore = score, questions = results, category = ''Technical'',
                  improvementTip = tip\<rparr>
         in (Inr a, s1\<lparr>assessments := assessments s @ [a], next_id := Suc (next_id s)\<rparr>))
      else (Inl FailedSaveQuiz, s1))"

definition saveQuizResult ::
  "runtime \<Rightarrow> jsval list \<Rightarrow> jsval list \<Rightarrow> jsval \<Rightarrow> world
     \<Rightarrow> (error + assessment) \<times> world" where
  "saveQuizResult rt qs as score s =
     (case auth s of
        None \<Rightarrow> (Inl Unauthorized, s)
      | Some userId \<Rightarrow>
          (case user_findUnique userId s of
             (Inl e, s1) \<Rightarrow> (Inl e, s1)
           | (Inr None, s1) \<Rightarrow> (Inl UserNotFound, s1)
           | (Inr (Some u), s1) \<Rightarrow>
               (case questionResults qs as 0 of
                  Inl e \<Rightarrow> (Inl e, s1)
                | Inr results \<Rightarrow>
                    (case improvementTip_of rt u (filter (\<lambda>q. \<not> isCorrect q) results) s1 of
                       (Inl e, s2) \<Rightarrow> (Inl e, s2)
                     | (Inr tip, s2) \<Rightarrow> assessment_create u score results tip s2))))"

definition getAssessments :: "world \<Rightarrow> (error + assessment list) \<times> world" where
  "getAssessments s =
     (case auth s of
        None \<Rightarrow> (Inl Unauthorized, s)
      | Some userId \<Rightarrow>
          (case user_findUnique userId s of
             (Inl e, s1) \<Rightarrow> (Inl e, s1)
           | (Inr None, s1) \<Rightarrow> (Inl UserNotFound, s1)
           | (Inr (Some u), s1) \<Rightarrow>
               (if db_up s1
                then Inr (filter (\<lambda>a. assessment_userId a = user_id u) (assessments s1))
                else Inl FailedFetchAssessments,
                emit (StoreRead ''assessment'') s1)))"

section \<open>The cover letter actions (actions/cover-letter.js)\<close>

text \<open>
  The letter's content: the \<^verbatim>\<open>coverLetter\<close> or \<^verbatim>\<open>cover_letter\<close> entry of the parsed
  response, and the raw response text when parsing (or reading the entry) throws.
\<close>

definition contentString :: "runtime \<Rightarrow> string \<Rightarrow> jsval" where
  "contentString rt responseText =
     (case JSON_parse rt responseText of
        None \<Rightarrow> JStr responseText
      | Some parsedData \<Rightarrow>
          (case get_prop parsedData ''coverLetter'' of
             Inl e \<Rightarrow> JStr responseText
           | Inr c \<Rightarrow> or_else c (own parsedData ''cover_letter'')))"

definition coverLetter_create ::
  "letterData \<Rightarrow> jsval \<Rightarrow> user \<Rightarrow> world \<Rightarrow> (error + coverLetter) \<times> world" where
  "coverLetter_create d c u s =
     (let s1 = emit (StoreWrite ''coverLetter'') s in
      if db_up s then
        (let l = \<lparr>jobTitle = jobTitle d, companyName = companyName d,
                  jobDescription = jobDescription d, letter_id = next_id s, content = c,
                  status = ''completed'', letter_userId = user_id u\<rparr>
         in (Inr l, s1\<lparr>coverLetters := coverLetters s @ [l], next_id := Suc (next_id s)\<rparr>))
      else (Inl StoreError, s1))"

definition generateCoverLetter ::
  "runtime \<Rightarrow> letterData \<Rightarrow> world \<Rightarrow> (error + coverLetter) \<times> world" where
  "generateCoverLetter rt d s =
     (case auth s of
        None \<Rightarrow> (Inl Unauthorized, s)
      | Some userId \<Rightarrow>
          (case user_findUnique userId s of
             (Inl e, s1) \<Rightarrow> (Inl e, s1)
           | (Inr None, s1) \<Rightarrow> (Inl UserNotFound, s1)
           | (Inr (Some u), s1) \<Rightarrow>
               (case generateContent (CoverLetterPrompt d u) s1 of
                  (Fails st, s2) \<Rightarrow> (Inl FailedCoverLetter, s2)
                | (Answers None, s2) \<Rightarrow> (Inl FailedCoverLetter, s2)
                | (Answers (Some responseText), s2) \<Rightarrow>
                    (case coverLetter_create d (contentString rt responseText) u s2 of
                       (Inl e, s3) \<Rightarrow> (Inl FailedCoverLetter, s3)
                     | (Inr l, s3) \<Rightarrow> (Inr l, s3)))))"

text \<open>The letters of a user, newest first (the list is kept in the order of creation).\<close>

definition getCoverLetters :: "world \<Rightarrow> (error + coverLetter list) \<times> world" where
  "getCoverLetters s =
     (case auth s of
        None \<Rightarrow> (Inl Unauthorized, s)
      | Some userId \<Rightarrow>
          (case user_findUnique userId s of
             (Inl e, s1) \<Rightarrow> (Inl e, s1)
           | (Inr None, s1) \<Rightarrow> (Inl UserNotFound, s1)
           | (Inr (Some u), s1) \<Rightarrow>
               (if db_up s1
                then Inr (rev (filter (\<lambda>l. letter_userId l = user_id u) (coverLetters s1)))
                else Inl StoreError,
                emit (StoreRead ''coverLetter'') s1)))"

definition getCoverLetter :: "nat \<Rightarrow> world \<Rightarrow> (error + coverLetter option) \<times> world" where
  "getCoverLetter i s =
     (case auth s of
        None \<Rightarrow> (Inl Unauthorized, s)
      | Some userId \<Rightarrow>
          (case user_findUnique userId s of
             (Inl e, s1) \<Rightarrow> (Inl e, s1)
           | (Inr None, s1) \<Rightarrow> (Inl UserNotFound, s1)
           | (Inr (Some u), s1) \<Rightarrow>
               (if db_up s1
                then Inr (find (\<lambda>l. letter_id l = i \<and> letter_userId l = user_id u)
                            (coverLetters s1))
                else Inl StoreError,
                emit (StoreRead ''coverLetter'') s1)))"

text \<open>The store's \<^verbatim>\<open>delete\<close> throws when no row matches.\<close>

definition deleteCoverLetter :: "nat \<Rightarrow> world \<Rightarrow> (error + coverLetter) \<times> world" where
  "deleteCoverLetter i s =
     (case auth s of
        None \<Rightarrow> (Inl Unauthorized, s)
      | Some userId \<Rightarrow>
          (case user_findUnique userId s of
             (Inl e, s1) \<Rightarrow> (Inl e, s1)
           | (Inr None, s1) \<Rightarrow> (Inl UserNotFound, s1)
           | (Inr (Some u), s1) \<Rightarrow>
               (let s2 = emit (StoreWrite ''coverLetter'') s1 in
                if db_up s1 then
                  (case find (\<lambda>l. letter_id l = i \<and> letter_userId l = user_id u)
                          (coverLetters s1) of
                     None \<Rightarrow> (Inl StoreError, s2)
                   | Some l \<Rightarrow>
                       (Inr l,
                        s2\<lparr>coverLetters :=
                             filter (\<lambda>x. \<not> (letter_id x = i \<and> letter_userId x = user_id u))
                               (coverLetters s1)\<rparr>))
                else (Inl StoreError, s2))))"

section \<open>The profile actions (updateUser, getUserOnboardingStatus)\<close>

record onboardingStatus =
  isOnboarded :: bool
  failure :: "string option"

text \<open>
  Without an identity the status is \<^verbatim>\<open>{ isOnboarded: false }\<close>, returned, not thrown; a
  store that throws gives \<^verbatim>\<open>{ isOnboarded: false, error: "Database connection failed" }\<close>.
\<close>

definition getUserOnboardingStatus :: "world \<Rightarrow> (error + onboardingStatus) \<times> world" where
  "getUserOnboardingStatus s =
     (case auth s of
        None \<Rightarrow> (Inr \<lparr>isOnboarded = False, failure = None\<rparr>, s)
      | Some userId \<Rightarrow>
          (case user_findUnique userId s of
             (Inl e, s1) \<Rightarrow>
               (Inr \<lparr>isOnboarded = False, failure = Some ''Database connection failed''\<rparr>, s1)
           | (Inr None, s1) \<Rightarrow> (Inr \<lparr>isOnboarded = False, failure = None\<rparr>, s1)
           | (Inr (Some u), s1) \<Rightarrow>
               (Inr \<lparr>isOnboarded = (case user_industry u of None \<Rightarrow> False | Some k \<Rightarrow> k \<noteq> []),
                     failure = None\<rparr>, s1)))"

definition industryInsight_findUnique ::
  "string \<Rightarrow> world \<Rightarrow> (error + industryInsight option) \<times> world" where
  "industryInsight_findUnique k s =
     (if db_up s then Inr (find (\<lambda>r. industry r = k) (industryInsights s)) else Inl StoreError,
      emit (StoreRead ''industryInsight'') s)"

text \<open>
  Lines 28 to 30 of \<^verbatim>\<open>updateUser\<close>: the insights generated, then \<^verbatim>\<open>toUpperCase()\<close> called on
  both enum fields (a TypeError on a value that is not a string).
\<close>

definition uppercased :: "runtime \<Rightarrow> insights \<Rightarrow> error + insights" where
  "uppercased rt ins =
     (case demandLevel ins of
        JStr d \<Rightarrow>
          (case marketOutlook ins of
             JStr m \<Rightarrow>
               Inr (ins\<lparr>demandLevel := JStr (toUpperCase rt d),
                        marketOutlook := JStr (toUpperCase rt m)\<rparr>)
           | _ \<Rightarrow> Inl TypeError)
      | _ \<Rightarrow> Inl TypeError)"

definition new_insights ::
  "runtime \<Rightarrow> profileData \<Rightarrow> world \<Rightarrow> (error + insights option) \<times> world" where
  "new_insights rt d s =
     (case generateAIInsights rt (Some (data_industry d)) s of
        (Inl e, s1) \<Rightarrow> (Inl e, s1)
      | (Inr ins, s1) \<Rightarrow>
          (case uppercased rt ins of
             Inl e \<Rightarrow> (Inl e, s1)
           | Inr ins' \<Rightarrow> (Inr (Some ins'), s1)))"

text \<open>
  The transaction: the insight row is created when there was none (its \<^verbatim>\<open>lastUpdated\<close>,
  which the action does not give, is taken to be the time of creation), then the user's
  row is updated; the update throws when no row has the caller's identity, and then
  nothing of the transaction is kept.
\<close>

definition profile_transaction ::
  "string \<Rightarrow> profileData \<Rightarrow> industryInsight option \<Rightarrow> insights option \<Rightarrow> world
     \<Rightarrow> (error + user \<times> industryInsight option) \<times> world" where
  "profile_transaction userId d existing ins s =
     (let s1 = emit (StoreWrite ''transaction'') s;
          created =
            (case existing of
               Some r \<Rightarrow> Some r
             | None \<Rightarrow>
                 (case ins of
                    None \<Rightarrow> None
                  | Some i \<Rightarrow>
                      Some \<lparr>industry = data_industry d, payload = i, lastUpdated = clock s,
                            nextUpdate = clock s + week\<rparr>))
      in if db_up s then
           (case find (\<lambda>u. clerkUserId u = userId) (users s) of
              None \<Rightarrow> (Inl StoreError, s1)
            | Some u \<Rightarrow>
                (let u' = u\<lparr>user_industry := Some (data_industry d),
                            experience := data_experience d, bio := data_bio d,
                            skills := data_skills d\<rparr>
                 in (Inr (u', created),
                     s1\<lparr>users := map (\<lambda>x. if clerkUserId x = userId then u' else x) (users s),
                        industryInsights :=
                          (case existing of
                             Some r \<Rightarrow> industryInsights s
                           | None \<Rightarrow>
                               (case created of
                                  None \<Rightarrow> industryInsights s
                                | Some r \<Rightarrow> industryInsights s @ [r]))\<rparr>)))
         else (Inl StoreError, s1))"

record profileResult =
  success :: bool
  updatedUser :: user
  profile_insight :: "industryInsight option"

text \<open>
  \<^verbatim>\<open>updateUser\<close>. The helper \<^verbatim>\<open>checkUser\<close> (lib/checkUser) is not among the sources and
  is a parameter: any function of the world that returns a user, nothing, or throws.
\<close>

definition updateUser ::
  "(world \<Rightarrow> (error + user option) \<times> world) \<Rightarrow> runtime \<Rightarrow> profileData
     \<Rightarrow> world \<Rightarrow> (error + profileResult) \<times> world" where
  "updateUser checkUser rt d s =
     (case auth s of
        None \<Rightarrow> (Inl Unauthorized, s)
      | Some userId \<Rightarrow>
          (case checkUser s of
             (Inl e, s1) \<Rightarrow> (Inl e, s1)
           | (Inr None, s1) \<Rightarrow> (Inl UserRegistrationFailed, s1)
           | (Inr (Some u), s1) \<Rightarrow>
               (case industryInsight_findUnique (data_industry d) s1 of
                  (Inl e, s2) \<Rightarrow> (Inl (FailedUpdateProfile e), s2)
                | (Inr existing, s2) \<Rightarrow>
                    (case (if existing = None then new_insights rt d s2 else (Inr None, s2)) of
                       (Inl e, s3) \<Rightarrow> (Inl (FailedUpdateProfile e), s3)
                     | (Inr ins, s3) \<Rightarrow>
                         (case profile_transaction userId d existing ins s3 of
                            (Inl e, s4) \<Rightarrow> (Inl (FailedUpdateProfile e), s4)
                          | (Inr (u', r), s4) \<Rightarrow>
                              (Inr \<lparr>success = True, updatedUser = u', profile_insight = r\<rparr>,
                               s4))))))"

section \<open>Predicates of the properties and example worlds\<close>

text \<open>
  No wrong answers: every question is an object whose \<^verbatim>\<open>correctAnswer\<close> is strictly equal
  to the answer submitted at its index (\<open>i\<close> is the index of the first question).
\<close>

fun no_wrong_answers :: "jsval list \<Rightarrow> jsval list \<Rightarrow> nat \<Rightarrow> bool" where
  "no_wrong_answers [] as i = True"
| "no_wrong_answers (q # qs) as i =
     (q \<noteq> JNull \<and> q \<noteq> JUndefined \<and> strict_eq (own q ''correctAnswer'') (index as i)
      \<and> no_wrong_answers qs as (Suc i))"

text \<open>
  An insight document: a parsed object (or array) whose two enum fields are each absent,
  \<^verbatim>\<open>null\<close> or a string.
\<close>

definition enum_raw :: "jsval \<Rightarrow> bool" where
  "enum_raw v = (case v of JUndefined \<Rightarrow> True | JNull \<Rightarrow> True | JStr s \<Rightarrow> True | _ \<Rightarrow> False)"

definition insight_document :: "jsval \<Rightarrow> bool" where
  "insight_document d =
     (assignable d \<and> enum_raw (own d ''demandLevel'') \<and> enum_raw (own d ''marketOutlook''))"

text \<open>
  The runtime of the examples. Its parser is \<^verbatim>\<open>JSON.parse\<close> on the five texts the examples
  use: \<^verbatim>\<open>null\<close>, \<^verbatim>\<open>{}\<close>, \<open>five_text\<close> (\<^verbatim>\<open>{"demandLevel":5}\<close>), and \<^verbatim>\<open>not json\<close> and
  \<open>fenced\<close> (\<^verbatim>\<open>{}\<close> between two fences), both a SyntaxError, as is every other text here.
  Its \<open>trim\<close> and \<open>toUpperCase\<close> are \<^verbatim>\<open>String.prototype.trim\<close> and \<^verbatim>\<open>toUpperCase\<close> on
  ASCII strings, and the examples have no other string. No example prints a number;
  \<open>print0\<close> prints the three whole numbers that occur in them.
\<close>

definition fenced :: string where
  "fenced = fence @ ''{}'' @ fence"

definition five_text :: string where
  "five_text = ''{'' @ [CHR 0x22] @ ''demandLevel'' @ [CHR 0x22] @ '':5}''"

definition parse0 :: "string \<Rightarrow> jsval option" where
  "parse0 t =
     (if t = ''null'' then Some JNull
      else if t = ''{}'' then Some (JObj [])
      else if t = five_text then Some (JObj [(''demandLevel'', JNum (Finite 5))])
      else None)"

definition ascii_upper :: "char \<Rightarrow> char" where
  "ascii_upper c =
     (case map_of (zip ''abcdefghijklmnopqrstuvwxyz'' ''ABCDEFGHIJKLMNOPQRSTUVWXYZ'') c of
        Some u \<Rightarrow> u
      | None \<Rightarrow> c)"

definition ascii_toUpperCase :: "string \<Rightarrow> string" where
  "ascii_toUpperCase s = map ascii_upper s"

definition ascii_space :: "char \<Rightarrow> bool" where
  "ascii_space c = (c \<in> set [CHR 0x09, CHR 0x0A, CHR 0x0B, CHR 0x0C, CHR 0x0D, CHR 0x20])"

definition ascii_trim :: "string \<Rightarrow> string" where
  "ascii_trim s = rev (dropWhile ascii_space (rev (dropWhile ascii_space s)))"

definition print0 :: "real \<Rightarrow> string" where
  "print0 x = (if x = 0 then ''0'' else if x = 5 then ''5'' else if x = 100 then ''100'' else [])"

definition runtime0 :: runtime where
  "runtime0 =
     \<lparr>JSON_parse = parse0, trim = ascii_trim, toUpperCase = ascii_toUpperCase,
      number_toString = print0\<rparr>"

definition alice :: user where
  "alice = \<lparr>user_id = ''u1'', clerkUserId = ''clerk_1'', user_industry = Some ''tech'',
            experience = Some 3, bio = None, skills = [''sql'']\<rparr>"

definition empty_insights :: insights where
  "empty_insights =
     \<lparr>salaryRanges = JArr [], growthRate = JNum (Finite 0), demandLevel = JStr ''LOW'',
      topSkills = JArr [], marketOutlook = JStr ''NEGATIVE'', keyTrends = JArr [],
      recommendedSkills = JArr []\<rparr>"

definition row :: "string \<Rightarrow> nat \<Rightarrow> industryInsight" where
  "row k t = \<lparr>industry = k, payload = empty_insights, lastUpdated = t, nextUpdate = t + week\<rparr>"

text \<open>
  \<open>world0\<close>: alice is signed in, the store holds no insight row, the clock reads 1000 and
  the generator answers \<^verbatim>\<open>{}\<close> to every call.
\<close>

definition world0 :: world where
  "world0 =
     \<lparr>identity = Some ''clerk_1'', db_up = True, users = [alice], industryInsights = [],
      coverLetters = [], assessments = [], next_id = 0,
      replies = (\<lambda>n. Answers (Some ''{}'')), gen_calls = 0, clock = 1000, trace = []\<rparr>"

text \<open>Alice's row exists and is stale (\<open>nextUpdate = week \<le> clock\<close>), respectively fresh.\<close>

definition stale_world :: world where
  "stale_world = world0\<lparr>industryInsights := [row ''tech'' 0], clock := week\<rparr>"

definition fresh_world :: world where
  "fresh_world = world0\<lparr>industryInsights := [row ''tech'' 0]\<rparr>"

text \<open>The generator answers \<^verbatim>\<open>not json\<close>, respectively \<open>fenced\<close>, to every call.\<close>

definition unparsable_world :: world where
  "unparsable_world = world0\<lparr>replies := (\<lambda>n. Answers (Some ''not json''))\<rparr>"

definition fenced_world :: world where
  "fenced_world = world0\<lparr>replies := (\<lambda>n. Answers (Some fenced))\<rparr>"

text \<open>
  The generator is rate limited twice and then answers; it is rate limited on every call;
  it does not know the model.
\<close>

definition limited_twice_world :: world where
  "limited_twice_world =
     world0\<lparr>replies := (\<lambda>n. if n < 2 then Fails (Some 429) else Answers (Some ''{}''))\<rparr>"

definition limited_world :: world where
  "limited_world = world0\<lparr>replies := (\<lambda>n. Fails (Some 429))\<rparr>"

definition unknown_model_world :: world where
  "unknown_model_world = world0\<lparr>replies := (\<lambda>n. Fails (Some 404))\<rparr>"

text \<open>Nobody is signed in.\<close>

definition anonymous_world :: world where
  "anonymous_world = world0\<lparr>identity := None\<rparr>"

text \<open>
  Three industries in the store and nobody signed in. In \<open>weekly_world\<close> the generator's
  second text does not parse and the other two are \<^verbatim>\<open>{}\<close>; in \<open>weekly_null_world\<close> the
  first text is \<^verbatim>\<open>null\<close>, in \<open>weekly_five_world\<close> it is \<open>five_text\<close>, and in
  \<open>weekly_unparsable_world\<close> no text parses.
\<close>

definition three_rows :: "industryInsight list" where
  "three_rows = [row ''tech'' 0, row ''finance'' 0, row ''health'' 0]"

definition weekly_world :: world where
  "weekly_world =
     world0\<lparr>identity := None, industryInsights := three_rows, clock := week,
            replies := (\<lambda>n. if n = 1 then Answers (Some ''not json'') else Answers (Some ''{}''))\<rparr>"

definition weekly_null_world :: world where
  "weekly_null_world =
     weekly_world\<lparr>replies := (\<lambda>n. if n = 0 then Answers (Some ''null'')
                                    else if n = 1 then Answers (Some ''not json'')
                                    else Answers (Some ''{}''))\<rparr>"

definition weekly_five_world :: world where
  "weekly_five_world =
     weekly_world\<lparr>replies := (\<lambda>n. if n = 0 then Answers (Some five_text)
                                    else if n = 1 then Answers (Some ''not json'')
                                    else Answers (Some ''{}''))\<rparr>"

definition weekly_unparsable_world :: world where
  "weekly_unparsable_world = weekly_world\<lparr>replies := (\<lambda>n. Answers (Some ''not json''))\<rparr>"

text \<open>A question answered wrongly, and the data of a letter.\<close>

definition question1 :: jsval where
  "question1 = JObj [(''question'', JStr ''Q1''), (''correctAnswer'', JStr ''A'')]"

definition result1 :: questionResult where
  "result1 = \<lparr>question = JStr ''Q1'', answer = JStr ''A'', userAnswer = JStr ''B'',
              isCorrect = False, explanation = JUndefined\<rparr>"

definition letter0 :: letterData where
  "letter0 = \<lparr>jobTitle = ''Engineer'', companyName = ''Acme'', jobDescription = ''Build''\<rparr>"

section \<open>Properties\<close>

declare safeGenerate.simps [simp del]

lemma runtime0_fields [simp]:
  "JSON_parse runtime0 = parse0" "trim runtime0 = ascii_trim"
  "toUpperCase runtime0 = ascii_toUpperCase" "number_toString runtime0 = print0"
  by (simp_all add: runtime0_def)

subsection \<open>The retry policy of safeGenerate\<close>

lemma safeGenerate_answers:
  "replies s (gen_calls s) = Answers t \<Longrightarrow>
   safeGenerate p r s = (Inr t, snd (generateContent p s))"
  by (subst safeGenerate.simps) (simp add: generateContent_def)

lemma safeGenerate_retry_step:
  "replies s (gen_calls s) = Fails (Some 429) \<Longrightarrow>
   safeGenerate p (Suc r) s = safeGenerate p r (sleep 30000 (snd (generateContent p s)))"
  by (subst safeGenerate.simps) (simp add: generateContent_def)

lemma safeGenerate_rate_limited:
  "N \<le> r \<Longrightarrow> (\<forall>i<N. replies s (gen_calls s + i) = Fails (Some 429)) \<Longrightarrow>
   replies s (gen_calls s + N) = Answers t \<Longrightarrow>
   safeGenerate p r s =
     (Inr t, s\<lparr>gen_calls := gen_calls s + N + 1, clock := clock s + N * 30000,
               trace := trace s @ concat (replicate N [GeneratorCall p, Sleep 30000])
                        @ [GeneratorCall p]\<rparr>)"
proof (induction N arbitrary: r s)
  case 0
  then show ?case
    by (simp add: safeGenerate_answers generateContent_def emit_def)
next
  case (Suc N)
  then obtain r' where r: "r = Suc r'" and le: "N \<le> r'"
    by (cases r) auto
  let ?s = "sleep 30000 (snd (generateContent p s))"
  have first: "replies s (gen_calls s) = Fails (Some 429)"
    using Suc.prems(2) by (metis add.right_neutral zero_less_Suc)
  have calls: "gen_calls ?s = Suc (gen_calls s)" and reps: "replies ?s = replies s"
    by (simp_all add: sleep_def generateContent_def emit_def)
  have fails: "\<forall>i<N. replies ?s (gen_calls ?s + i) = Fails (Some 429)"
    using Suc.prems(2) by (simp add: calls reps) (metis Suc_less_eq add_Suc_right)
  have ans: "replies ?s (gen_calls ?s + N) = Answers t"
    using Suc.prems(3) by (simp add: calls reps)
  show ?case
    unfolding r safeGenerate_retry_step [OF first]
    by (simp add: Suc.IH [OF le fails ans]) (simp add: sleep_def generateContent_def emit_def)
qed

lemma safeGenerate_exhausted:
  "(\<forall>i\<le>r. replies s (gen_calls s + i) = Fails (Some 429)) \<Longrightarrow>
   safeGenerate p r s =
     (Inl (GeneratorError (Some 429)),
      s\<lparr>gen_calls := gen_calls s + r + 1, clock := clock s + r * 30000,
        trace := trace s @ concat (replicate r [GeneratorCall p, Sleep 30000])
                 @ [GeneratorCall p]\<rparr>)"
proof (induction r arbitrary: s)
  case 0
  then show ?case
    by (subst safeGenerate.simps) (simp add: generateContent_def emit_def)
next
  case (Suc r)
  let ?s = "sleep 30000 (snd (generateContent p s))"
  have first: "replies s (gen_calls s) = Fails (Some 429)"
    using Suc.prems by (metis add.right_neutral le0)
  have calls: "gen_calls ?s = Suc (gen_calls s)" and reps: "replies ?s = replies s"
    by (simp_all add: sleep_def generateContent_def emit_def)
  have fails: "\<forall>i\<le>r. replies ?s (gen_calls ?s + i) = Fails (Some 429)"
    using Suc.prems by (simp add: calls reps) (metis Suc_le_mono add_Suc_right)
  show ?case
    unfolding safeGenerate_retry_step [OF first]
    by (simp add: Suc.IH [OF fails]) (simp add: sleep_def generateContent_def emit_def)
qed

text \<open>
  C5. With its budget of 3 retries, \<open>safeGenerate\<close> returns the generator's answer when the
  call is rate limited (status 429) exactly \<open>N\<close> times, \<open>N\<close> at most 3 (so also for every
  \<open>N\<close> strictly below the budget), and then answers: it has made \<open>N + 1\<close> calls and slept
  30000 ms after each rate-limited one, before the retry. When the first four calls are all
  rate limited, the failures exceed the budget and \<open>safeGenerate\<close> raises: it rethrows the
  rate-limit error of the fourth call, after three sleeps of 30000 ms. (The spec's
  GenerationFailed is this raised error.)
\<close>

theorem safeGenerate_retry_policy:
  "(N \<le> 3 \<and> (\<forall>i<N. replies s (gen_calls s + i) = Fails (Some 429))
      \<and> replies s (gen_calls s + N) = Answers t
    \<longrightarrow> safeGenerate p 3 s =
          (Inr t, s\<lparr>gen_calls := gen_calls s + N + 1, clock := clock s + N * 30000,
                    trace := trace s @ concat (replicate N [GeneratorCall p, Sleep 30000])
                             @ [GeneratorCall p]\<rparr>))
   \<and> ((\<forall>i\<le>3. replies s (gen_calls s + i) = Fails (Some 429))
    \<longrightarrow> safeGenerate p 3 s =
          (Inl (GeneratorError (Some 429)),
           s\<lparr>gen_calls := gen_calls s + 4, clock := clock s + 90000,
             trace := trace s @ concat (replicate 3 [GeneratorCall p, Sleep 30000])
                      @ [GeneratorCall p]\<rparr>))"
  using safeGenerate_rate_limited [of N 3 s t p] safeGenerate_exhausted [of 3 s p]
  by simp

theorem safeGenerate_retry_policy_witness:
  "safeGenerate (QuizPrompt None) 3 limited_twice_world =
     (Inr (Some ''{}''),
      limited_twice_world\<lparr>gen_calls := 3, clock := 61000,
        trace := [GeneratorCall (QuizPrompt None), Sleep 30000,
                  GeneratorCall (QuizPrompt None), Sleep 30000,
                  GeneratorCall (QuizPrompt None)]\<rparr>)
   \<and> safeGenerate (QuizPrompt None) 3 limited_world =
     (Inl (GeneratorError (Some 429)),
      limited_world\<lparr>gen_calls := 4, clock := 91000,
        trace := [GeneratorCall (QuizPrompt None), Sleep 30000,
                  GeneratorCall (QuizPrompt None), Sleep 30000,
                  GeneratorCall (QuizPrompt None), Sleep 30000,
                  GeneratorCall (QuizPrompt None)]\<rparr>)"
proof -
  have a: "(2::nat) \<le> 3
      \<and> (\<forall>i<2. replies limited_twice_world (gen_calls limited_twice_world + i)
                  = Fails (Some 429))
      \<and> replies limited_twice_world (gen_calls limited_twice_world + 2)
          = Answers (Some ''{}'')"
    by (simp add: limited_twice_world_def world0_def)
  have b: "\<forall>i\<le>3. replies limited_world (gen_calls limited_world + i) = Fails (Some 429)"
    by (simp add: limited_world_def world0_def)
  have c: "gen_calls limited_twice_world = 0 \<and> clock limited_twice_world = 1000
      \<and> trace limited_twice_world = [] \<and> gen_calls limited_world = 0
      \<and> clock limited_world = 1000 \<and> trace limited_world = []"
    by (simp add: limited_twice_world_def limited_world_def world0_def)
  from a b c safeGenerate_retry_policy [of 2 limited_twice_world "Some ''{}''" "QuizPrompt None"]
    safeGenerate_retry_policy [of 0 limited_world "Some ''{}''" "QuizPrompt None"]
  show ?thesis
    by (simp add: numeral_2_eq_2 numeral_3_eq_3)
qed

text \<open>
  C8. When the generator call fails with a status other than the rate limit's 429 (404,
  an unknown model identifier, is the case the code names; an error without a status is
  another), \<open>safeGenerate\<close> raises at once, whatever its retry budget: for 404 the error
  "Model name is outdated", otherwise the generator's own error. Exactly one generator call
  was made, and no sleep: zero retries.
\<close>

theorem safeGenerate_no_retry:
  "replies s (gen_calls s) = Fails st \<Longrightarrow> st \<noteq> Some 429 \<Longrightarrow>
   safeGenerate p retries s =
     (Inl (if st = Some 404 then ModelOutdated else GeneratorError st),
      s\<lparr>gen_calls := Suc (gen_calls s), trace := trace s @ [GeneratorCall p]\<rparr>)"
  by (subst safeGenerate.simps) (simp add: generateContent_def emit_def)

theorem safeGenerate_no_retry_witness:
  "safeGenerate (QuizPrompt None) 3 unknown_model_world =
     (Inl ModelOutdated,
      unknown_model_world\<lparr>gen_calls := 1, trace := [GeneratorCall (QuizPrompt None)]\<rparr>)"
proof -
  have a: "replies unknown_model_world (gen_calls unknown_model_world) = Fails (Some 404)"
    by (simp add: unknown_model_world_def world0_def)
  have b: "Some (404::nat) \<noteq> Some 429"
    by simp
  have c: "gen_calls unknown_model_world = 0 \<and> trace unknown_model_world = []"
    by (simp add: unknown_model_world_def world0_def)
  from c safeGenerate_no_retry [OF a b, of "QuizPrompt None" 3] show ?thesis
    by simp
qed

subsection \<open>The freshness gate of getIndustryInsights\<close>

lemma insight_of_emit [simp]: "insight_of u (emit e s) = insight_of u s"
  by (simp add: insight_of_def emit_def split: option.splits)

lemma clock_emit [simp]: "clock (emit e s) = clock s"
  by (simp add: emit_def)

lemma industryInsights_emit [simp]: "industryInsights (emit e s) = industryInsights s"
  by (simp add: emit_def)

text \<open>
  C7. For a signed-in caller whose user row exists and whose industry has an insight row
  \<open>r\<close> with \<open>now < nextUpdate r\<close>, \<open>getIndustryInsights\<close> returns \<open>r\<close> itself. The world is
  unchanged but for the trace, which gains the one read of the user: no generator call
  (\<open>gen_calls\<close> and the reply sequence are untouched) and no store write.
\<close>

theorem getIndustryInsights_fresh:
  assumes "identity s = Some uid" and "db_up s"
    and "find (\<lambda>x. clerkUserId x = uid) (users s) = Some u"
    and "insight_of u s = Some r" and "clock s < nextUpdate r"
  shows "getIndustryInsights rt s = (Inr r, s\<lparr>trace := trace s @ [StoreRead ''user'']\<rparr>)"
  using assms
  by (simp add: getIndustryInsights_def auth_def user_findUnique_def) (simp add: emit_def)

theorem getIndustryInsights_fresh_witness:
  "getIndustryInsights runtime0 fresh_world =
     (Inr (row ''tech'' 0), fresh_world\<lparr>trace := [StoreRead ''user'']\<rparr>)"
proof -
  have a: "identity fresh_world = Some ''clerk_1''" "db_up fresh_world"
    "find (\<lambda>x. clerkUserId x = ''clerk_1'') (users fresh_world) = Some alice"
    "insight_of alice fresh_world = Some (row ''tech'' 0)"
    "clock fresh_world < nextUpdate (row ''tech'' 0)"
    by (simp_all add: fresh_world_def world0_def alice_def insight_of_def row_def week_def)
  have c: "trace fresh_world = []"
    by (simp add: fresh_world_def world0_def)
  from c getIndustryInsights_fresh [OF a, of runtime0] show ?thesis
    by simp
qed

subsection \<open>The quiz actions\<close>

text \<open>
  C9. In a run of \<open>generateQuiz\<close> that reaches the generator (the caller is signed in and
  has a user row), when the generation fails (\<open>safeGenerate\<close> raises, with its retries
  used up or not), or the response carries no text, or the text does not parse (or parses
  to \<^verbatim>\<open>null\<close>, which has no \<^verbatim>\<open>questions\<close> to read), the action returns the hard-coded
  list of exactly one placeholder question, an object with the fields question, options,
  correctAnswer and explanation. It returns: no error is raised, and the result is not
  empty.
\<close>

theorem generateQuiz_fallback:
  assumes "identity s = Some uid" and "db_up s"
    and "find (\<lambda>x. clerkUserId x = uid) (users s) = Some u"
    and "safeGenerate (QuizPrompt (user_industry u)) 3 (emit (StoreRead ''user'') s) = (g, s')"
    and "(\<exists>e. g = Inl e) \<or> g = Inr None
         \<or> (\<exists>t. g = Inr (Some t) \<and> (JSON_parse rt t = None \<or> JSON_parse rt t = Some JNull))"
  shows "generateQuiz rt s =
           (Inr (JArr [JObj [(''question'', JStr ''Fallback question...''),
                             (''options'', JArr [JStr ''A'', JStr ''B'', JStr ''C'', JStr ''D'']),
                             (''correctAnswer'', JStr ''A''),
                             (''explanation'', JStr ''Error fallback'')]]), s')"
  using assms
  by (auto simp: generateQuiz_def auth_def user_findUnique_def quiz_fallback_def get_prop_def)

theorem generateQuiz_fallback_witness:
  "generateQuiz runtime0 unknown_model_world =
     (Inr (JArr [JObj [(''question'', JStr ''Fallback question...''),
                       (''options'', JArr [JStr ''A'', JStr ''B'', JStr ''C'', JStr ''D'']),
                       (''correctAnswer'', JStr ''A''),
                       (''explanation'', JStr ''Error fallback'')]]),
      unknown_model_world\<lparr>gen_calls := 1,
        trace := [StoreRead ''user'', GeneratorCall (QuizPrompt (Some ''tech''))]\<rparr>)"
proof -
  let ?s' = "unknown_model_world\<lparr>gen_calls := 1,
        trace := [StoreRead ''user'', GeneratorCall (QuizPrompt (Some ''tech''))]\<rparr>"
  have a: "identity unknown_model_world = Some ''clerk_1''" "db_up unknown_model_world"
    "find (\<lambda>x. clerkUserId x = ''clerk_1'') (users unknown_model_world) = Some alice"
    by (simp_all add: unknown_model_world_def world0_def alice_def)
  have b: "safeGenerate (QuizPrompt (user_industry alice)) 3
             (emit (StoreRead ''user'') unknown_model_world) = (Inl ModelOutdated, ?s')"
    by (subst safeGenerate.simps)
       (simp add: generateContent_def emit_def unknown_model_world_def world0_def alice_def)
  have c: "(\<exists>e. Inl ModelOutdated = (Inl e :: error + string option))
           \<or> (Inl ModelOutdated :: error + string option) = Inr None
           \<or> (\<exists>t. (Inl ModelOutdated :: error + string option) = Inr (Some t)
                 \<and> (JSON_parse runtime0 t = None \<or> JSON_parse runtime0 t = Some JNull))"
    by simp
  from generateQuiz_fallback [OF a b c] show ?thesis .
qed

lemma questionResults_no_wrong:
  "no_wrong_answers qs as i \<Longrightarrow>
   \<exists>rs. questionResults qs as i = Inr rs \<and> filter (\<lambda>q. \<not> isCorrect q) rs = []"
proof (induction qs arbitrary: i)
  case Nil
  then show ?case by simp
next
  case (Cons q qs)
  from Cons.prems have "no_wrong_answers qs as (Suc i)"
    by simp
  from Cons.IH [OF this] obtain rs
    where rs: "questionResults qs as (Suc i) = Inr rs" "filter (\<lambda>q. \<not> isCorrect q) rs = []"
    by blast
  from Cons.prems rs show ?case
    by (simp add: questionResult_of_def get_prop_def)
qed

text \<open>
  C10. When every submitted answer is strictly equal to its question's \<^verbatim>\<open>correctAnswer\<close>
  (no wrong answers), \<open>saveQuizResult\<close> makes no generator call, in any world (the number of
  generator calls is what it was), and every assessment it returns has \<open>improvementTip\<close>
  \<^verbatim>\<open>null\<close>. For a signed-in caller with a user row and a store that answers it does
  persist and return one: the world changes by that row, the next id and two trace entries,
  the read of the user and the write of the assessment.
\<close>

theorem saveQuizResult_no_wrong_answers:
  assumes "no_wrong_answers qs as 0"
  shows "gen_calls (snd (saveQuizResult rt qs as score s)) = gen_calls s
       \<and> (\<forall>a. fst (saveQuizResult rt qs as score s) = Inr a \<longrightarrow> improvementTip a = JNull)
       \<and> (identity s = Some uid \<and> db_up s
            \<and> find (\<lambda>x. clerkUserId x = uid) (users s) = Some u
          \<longrightarrow> (\<exists>a. saveQuizResult rt qs as score s =
                     (Inr a, s\<lparr>assessments := assessments s @ [a], next_id := Suc (next_id s),
                               trace := trace s @ [StoreRead ''user'', StoreWrite ''assessment'']\<rparr>)
                   \<and> improvementTip a = JNull))"
proof -
  from questionResults_no_wrong [OF assms] obtain rs
    where rs: "questionResults qs as 0 = Inr rs" "filter (\<lambda>q. \<not> isCorrect q) rs = []"
    by blast
  have calls: "gen_calls (snd (saveQuizResult rt qs as score s)) = gen_calls s"
    using rs
    by (simp add: saveQuizResult_def auth_def user_findUnique_def improvementTip_of_def
          assessment_create_def emit_def Let_def split: option.splits)
  have tip: "\<forall>a. fst (saveQuizResult rt qs as score s) = Inr a \<longrightarrow> improvementTip a = JNull"
    using rs
    by (auto simp: saveQuizResult_def auth_def user_findUnique_def improvementTip_of_def
          assessment_create_def emit_def Let_def split: option.splits if_splits)
  have stored: "identity s = Some uid \<and> db_up s
            \<and> find (\<lambda>x. clerkUserId x = uid) (users s) = Some u
          \<longrightarrow> (\<exists>a. saveQuizResult rt qs as score s =
                     (Inr a, s\<lparr>assessments := assessments s @ [a], next_id := Suc (next_id s),
                               trace := trace s @ [StoreRead ''user'', StoreWrite ''assessment'']\<rparr>)
                   \<and> improvementTip a = JNull)"
    using rs
    by (simp add: saveQuizResult_def auth_def user_findUnique_def improvementTip_of_def
          assessment_create_def emit_def Let_def)
  from calls tip stored show ?thesis
    by blast
qed

theorem saveQuizResult_no_wrong_answers_witness:
  "\<exists>a. saveQuizResult runtime0 [JObj [(''question'', JStr ''Q1''), (''correctAnswer'', JStr ''A'')]]
              [JStr ''A''] (JNum (Finite 100)) world0 =
            (Inr a, world0\<lparr>assessments := [a], next_id := 1,
                           trace := [StoreRead ''user'', StoreWrite ''assessment'']\<rparr>)
          \<and> improvementTip a = JNull"
proof -
  have a: "no_wrong_answers [JObj [(''question'', JStr ''Q1''), (''correctAnswer'', JStr ''A'')]]
       [JStr ''A''] 0"
    by (simp add: strict_eq_def index_def)
  have b: "identity world0 = Some ''clerk_1'' \<and> db_up world0
    \<and> find (\<lambda>x. clerkUserId x = ''clerk_1'') (users world0) = Some alice"
    by (simp add: world0_def alice_def)
  have c: "assessments world0 = [] \<and> next_id world0 = 0 \<and> trace world0 = []"
    by (simp add: world0_def)
  from b c saveQuizResult_no_wrong_answers [OF a, of runtime0 "JNum (Finite 100)" world0 "''clerk_1''" alice]
  show ?thesis
    by simp
qed

subsection \<open>The identity check\<close>

text \<open>
  C4, as amended. Without a caller identity each of \<open>generateQuiz\<close>, \<open>saveQuizResult\<close>,
  \<open>getAssessments\<close>, \<open>generateCoverLetter\<close>, \<open>getCoverLetters\<close>, \<open>getCoverLetter\<close>,
  \<open>deleteCoverLetter\<close>, \<open>getIndustryInsights\<close> and \<open>updateUser\<close> raises Unauthorized and
  leaves the world as it was, trace included: no store read, no store write and no
  generator call came before. \<open>getUserOnboardingStatus\<close> does not raise: it returns
  \<^verbatim>\<open>{ isOnboarded: false }\<close>, also with the world untouched. \<open>generateAIInsights\<close>, which
  the dashboard module exports too, checks no identity: it calls the generator whoever
  calls it.
\<close>

theorem unauthorized_before_any_work:
  assumes "identity s = None"
  shows "generateQuiz rt s = (Inl Unauthorized, s)
       \<and> saveQuizResult rt qs as score s = (Inl Unauthorized, s)
       \<and> getAssessments s = (Inl Unauthorized, s)
       \<and> generateCoverLetter rt d s = (Inl Unauthorized, s)
       \<and> getCoverLetters s = (Inl Unauthorized, s)
       \<and> getCoverLetter i s = (Inl Unauthorized, s)
       \<and> deleteCoverLetter i s = (Inl Unauthorized, s)
       \<and> getIndustryInsights rt s = (Inl Unauthorized, s)
       \<and> updateUser checkUser rt pd s = (Inl Unauthorized, s)
       \<and> getUserOnboardingStatus s = (Inr \<lparr>isOnboarded = False, failure = None\<rparr>, s)
       \<and> gen_calls (snd (generateAIInsights rt ind s)) = Suc (gen_calls s)"
  using assms
  by (simp add: generateAIInsights_def generateContent_def emit_def
        split: reply.splits option.splits sum.splits,
      simp add: generateQuiz_def saveQuizResult_def getAssessments_def generateCoverLetter_def
        getCoverLetters_def getCoverLetter_def deleteCoverLetter_def getIndustryInsights_def
        updateUser_def getUserOnboardingStatus_def auth_def)

theorem unauthorized_before_any_work_witness:
  "generateQuiz runtime0 anonymous_world = (Inl Unauthorized, anonymous_world)
   \<and> saveQuizResult runtime0 [] [] JNull anonymous_world = (Inl Unauthorized, anonymous_world)
   \<and> getAssessments anonymous_world = (Inl Unauthorized, anonymous_world)
   \<and> generateCoverLetter runtime0
        \<lparr>jobTitle = ''Engineer'', companyName = ''Acme'', jobDescription = ''Build''\<rparr>
        anonymous_world = (Inl Unauthorized, anonymous_world)
   \<and> getCoverLetters anonymous_world = (Inl Unauthorized, anonymous_world)
   \<and> getCoverLetter 0 anonymous_world = (Inl Unauthorized, anonymous_world)
   \<and> deleteCoverLetter 0 anonymous_world = (Inl Unauthorized, anonymous_world)
   \<and> getIndustryInsights runtime0 anonymous_world = (Inl Unauthorized, anonymous_world)
   \<and> updateUser (\<lambda>w. (Inr None, w)) runtime0
        \<lparr>data_industry = ''tech'', data_experience = None, data_bio = None, data_skills = []\<rparr>
        anonymous_world = (Inl Unauthorized, anonymous_world)
   \<and> getUserOnboardingStatus anonymous_world =
        (Inr \<lparr>isOnboarded = False, failure = None\<rparr>, anonymous_world)
   \<and> gen_calls (snd (generateAIInsights runtime0 None anonymous_world)) =
        Suc (gen_calls anonymous_world)"
proof -
  have a: "identity anonymous_world = None"
    by (simp add: anonymous_world_def world0_def)
  show ?thesis
    by (rule unauthorized_before_any_work [OF a])
qed

text \<open>
  C4 as stated fails at \<open>getUserOnboardingStatus\<close>: with nobody signed in it returns a
  status and raises nothing.
\<close>

theorem onboarding_status_not_unauthorized:
  "identity anonymous_world = None
   \<and> getUserOnboardingStatus anonymous_world =
       (Inr \<lparr>isOnboarded = False, failure = None\<rparr>, anonymous_world)
   \<and> fst (getUserOnboardingStatus anonymous_world) \<noteq> Inl Unauthorized"
  by (simp add: getUserOnboardingStatus_def auth_def anonymous_world_def world0_def)

subsection \<open>The refresh of getIndustryInsights and the enum maps, evaluated\<close>

lemma cleaned_examples:
  "cleaned_interactive runtime0 ''{}'' = ''{}''"
  "cleaned_interactive runtime0 ''not json'' = ''not json''"
  "cleaned_interactive runtime0 fenced = ''{}''"
  "cleanedText runtime0 ''{}'' = ''{}''" "cleanedText runtime0 ''not json'' = ''not json''"
  "cleanedText runtime0 ''null'' = ''null''" "cleanedText runtime0 fenced = ''{}''"
  "cleanedText runtime0 five_text = five_text"
  by (simp_all add: cleaned_interactive_def cleanedText_def ascii_trim_def
        ascii_space_def fence_def fenced_def skip_json_def skip_newline_def five_text_def)

lemma parse0_examples:
  "parse0 ''null'' = Some JNull" "parse0 ''{}'' = Some (JObj [])"
  "parse0 five_text = Some (JObj [(''demandLevel'', JNum (Finite 5))])"
  "parse0 ''not json'' = None" "parse0 fenced = None"
  by (simp_all add: parse0_def five_text_def fenced_def fence_def)

lemma mapped_insights_empty:
  "mapped_insights rt (JObj []) =
     Inr \<lparr>salaryRanges = JUndefined, growthRate = JUndefined, demandLevel = JStr ''MEDIUM'',
          topSkills = JUndefined, marketOutlook = JStr ''NEUTRAL'', keyTrends = JUndefined,
          recommendedSkills = JUndefined\<rparr>"
  by (simp add: mapped_insights_def get_prop_def map_enum_def literal_get_def demandLevelMap_def
        marketOutlookMap_def object_prototype_keys_def or_else_def)

text \<open>
  In every world the refresh raises and stores nothing, so \<open>getIndustryInsights\<close> never
  changes the insight rows.
\<close>

lemma generateAIInsights_rows [simp]:
  "industryInsights (snd (generateAIInsights rt ind s)) = industryInsights s"
  by (simp add: generateAIInsights_def generateContent_def emit_def
        split: reply.splits option.splits sum.splits)

lemma refreshInsight_raises:
  "(\<exists>e. fst (refreshInsight rt u s) = Inl e)
   \<and> industryInsights (snd (refreshInsight rt u s)) = industryInsights s"
proof (cases "generateAIInsights rt (user_industry u) s")
  case (Pair r s1)
  have "industryInsights s1 = industryInsights s"
    using generateAIInsights_rows [of rt "user_industry u" s] Pair by simp
  then show ?thesis
    by (cases r) (simp_all add: refreshInsight_def Pair new_Date_now_def)
qed

lemma getIndustryInsights_stores_nothing:
  "industryInsights (snd (getIndustryInsights rt s)) = industryInsights s"
  by (simp add: getIndustryInsights_def auth_def user_findUnique_def refreshInsight_raises
        split: option.splits)

text \<open>
  C1. The claim asks that \<open>getIndustryInsights\<close>, on a missing or a stale row, stores a row
  with \<open>lastUpdated = now\<close> and \<open>nextUpdate = now + 7 days\<close>. The code does not: in
  \<open>world0\<close> (no row) and in \<open>stale_world\<close> (a stale row) the generator is called once and
  answers a document that parses, and then building the upsert's argument throws a
  TypeError at \<^verbatim>\<open>new Date.now()\<close>; the action raises it and the store keeps what it had, no
  row in the first world and the stale row, unchanged, in the second.
\<close>

theorem getIndustryInsights_refresh_throws:
  "getIndustryInsights runtime0 world0 =
     (Inl TypeError,
      world0\<lparr>gen_calls := 1,
             trace := [StoreRead ''user'', GeneratorCall (InsightsPrompt (Some ''tech''))]\<rparr>)
   \<and> getIndustryInsights runtime0 stale_world =
     (Inl TypeError,
      stale_world\<lparr>gen_calls := 1,
             trace := [StoreRead ''user'', GeneratorCall (InsightsPrompt (Some ''tech''))]\<rparr>)
   \<and> industryInsights (snd (getIndustryInsights runtime0 world0)) = []
   \<and> industryInsights (snd (getIndustryInsights runtime0 stale_world)) = [row ''tech'' 0]"
  by (simp add: getIndustryInsights_def auth_def user_findUnique_def refreshInsight_def
        generateAIInsights_def generateContent_def new_Date_now_def emit_def insight_of_def
        world0_def stale_world_def alice_def row_def week_def cleaned_examples parse0_examples
        mapped_insights_empty)

text \<open>
  C2. The claim asks that a case-varied spelling of a valid value becomes the uppercase
  member, and any other value the default, on both paths. On the interactive path the maps
  have the keys \<^verbatim>\<open>High\<close>, \<^verbatim>\<open>Medium\<close>, \<^verbatim>\<open>Low\<close> (and \<^verbatim>\<open>Positive\<close>, ...) only: \<^verbatim>\<open>HIGH\<close>,
  which is what the prompt of \<open>generateAIInsights\<close> asks the generator for, and \<^verbatim>\<open>high\<close>
  both become the default \<^verbatim>\<open>MEDIUM\<close>, and \<^verbatim>\<open>POSITIVE\<close> becomes \<^verbatim>\<open>NEUTRAL\<close>; the invalid
  value \<^verbatim>\<open>constructor\<close> becomes the function the map inherits under that name, not the
  default. The scheduled job's \<open>normalizeEnum\<close> does give \<^verbatim>\<open>HIGH\<close> for both spellings; on a
  value that is neither a string nor absent (the number 5) it throws a TypeError.
\<close>

theorem enum_normalisation_diverges:
  "map_enum runtime0 demandLevelMap (JStr ''HIGH'') ''MEDIUM'' = Inr (JStr ''MEDIUM'')
   \<and> map_enum runtime0 demandLevelMap (JStr ''high'') ''MEDIUM'' = Inr (JStr ''MEDIUM'')
   \<and> map_enum runtime0 marketOutlookMap (JStr ''POSITIVE'') ''NEUTRAL'' = Inr (JStr ''NEUTRAL'')
   \<and> map_enum runtime0 demandLevelMap (JStr ''constructor'') ''MEDIUM'' = Inr (JBuiltin ''constructor'')
   \<and> normalizeEnum runtime0 (JStr ''HIGH'') [''HIGH'', ''MEDIUM'', ''LOW''] ''MEDIUM'' = Inr (JStr ''HIGH'')
   \<and> normalizeEnum runtime0 (JStr ''high'') [''HIGH'', ''MEDIUM'', ''LOW''] ''MEDIUM'' = Inr (JStr ''HIGH'')
   \<and> normalizeEnum runtime0 (JNum (Finite 5)) [''HIGH'', ''MEDIUM'', ''LOW''] ''MEDIUM'' = Inl TypeError"
  by (simp add: map_enum_def literal_get_def demandLevelMap_def marketOutlookMap_def
        object_prototype_keys_def or_else_def normalizeEnum_def optional_toUpperCase_def
        array_includes_def ascii_toUpperCase_def ascii_upper_def)

subsection \<open>The scheduled job\<close>

lemma normalizeEnum_raw: "enum_raw v \<Longrightarrow> \<exists>u. normalizeEnum rt v allowed fb = Inr u"
  by (cases v) (simp_all add: enum_raw_def normalizeEnum_def optional_toUpperCase_def)

lemma weekly_data_document: "insight_document d \<Longrightarrow> \<exists>p. weekly_data rt d = Inr p"
proof -
  assume doc: "insight_document d"
  then have a: "assignable d" and nn: "d \<noteq> JNull" "d \<noteq> JUndefined"
    by (auto simp: insight_document_def)
  from doc normalizeEnum_raw obtain u
    where u: "normalizeEnum rt (own d ''demandLevel'') [''HIGH'', ''MEDIUM'', ''LOW''] ''MEDIUM'' = Inr u"
    unfolding insight_document_def by blast
  from doc normalizeEnum_raw obtain w
    where w: "normalizeEnum rt (own d ''marketOutlook'') [''POSITIVE'', ''NEUTRAL'', ''NEGATIVE'']
                ''NEUTRAL'' = Inr w"
    unfolding insight_document_def by blast
  show ?thesis
    by (simp add: weekly_data_def get_prop_def a nn u w)
qed

text \<open>
  C6. The claim asks that a run over three subjects whose second text is unparsable, while
  the other two parse, updates the first and the third row, leaves the second and raises
  no error. The job's \<^verbatim>\<open>try\<close> with its \<^verbatim>\<open>continue\<close> ("Skip this industry if AI response
  is malformed") guards \<^verbatim>\<open>JSON.parse\<close> alone. In \<open>weekly_null_world\<close> the first text is
  \<^verbatim>\<open>null\<close> and in \<open>weekly_five_world\<close> it is \<^verbatim>\<open>{"demandLevel":5}\<close>; both parse, the second
  text does not and the third is \<^verbatim>\<open>{}\<close>. Reading \<^verbatim>\<open>insights.demandLevel\<close> of \<^verbatim>\<open>null\<close>,
  respectively \<^verbatim>\<open>toUpperCase\<close> of the number in \<open>normalizeEnum\<close>, throws a TypeError that
  nothing catches: the run ends with that error after one generator call, and no row is
  updated, not the third one either.
\<close>

theorem weekly_job_aborts_on_malformed:
  "JSON_parse runtime0 (cleanedText runtime0 (candidate_text (Some ''null''))) = Some JNull
   \<and> JSON_parse runtime0 (cleanedText runtime0 (candidate_text (Some five_text))) =
       Some (JObj [(''demandLevel'', JNum (Finite 5))])
   \<and> JSON_parse runtime0 (cleanedText runtime0 (candidate_text (Some ''not json''))) = None
   \<and> JSON_parse runtime0 (cleanedText runtime0 (candidate_text (Some ''{}''))) = Some (JObj [])
   \<and> generateIndustryInsights runtime0 weekly_null_world =
       (Inl TypeError,
        weekly_null_world\<lparr>gen_calls := 1,
          trace := [StoreRead ''industryInsight'',
                    GeneratorCall (WeeklyInsightsPrompt ''tech'')]\<rparr>)
   \<and> industryInsights (snd (generateIndustryInsights runtime0 weekly_null_world)) = three_rows
   \<and> generateIndustryInsights runtime0 weekly_five_world =
       (Inl TypeError,
        weekly_five_world\<lparr>gen_calls := 1,
          trace := [StoreRead ''industryInsight'',
                    GeneratorCall (WeeklyInsightsPrompt ''tech'')]\<rparr>)
   \<and> industryInsights (snd (generateIndustryInsights runtime0 weekly_five_world)) = three_rows"
  by (simp add: generateIndustryInsights_def generateContent_def emit_def weekly_null_world_def
        weekly_five_world_def weekly_world_def world0_def three_rows_def row_def
        candidate_text_def cleaned_examples parse0_examples weekly_data_def
        get_prop_def normalizeEnum_def optional_toUpperCase_def)

text \<open>
  X3. The scenario on insight documents. The store answers and holds exactly three
  industries; the generator answers the job's three calls; the text for the second
  industry does not parse, and the texts for the first and the third parse to insight
  documents (objects, or arrays, whose \<^verbatim>\<open>demandLevel\<close> and \<^verbatim>\<open>marketOutlook\<close> are each absent,
  \<^verbatim>\<open>null\<close> or a string). Then the job ends without an error, the rows of the first and the
  third industry carry the normalised payloads with \<open>lastUpdated = now\<close> and
  \<open>nextUpdate = now + 7 days\<close>, and the second row is the row it was: the trace shows three
  generator calls and two writes.
\<close>

theorem weekly_job_skips_unparsable:
  assumes "db_up s" and "industryInsights s = [r1, r2, r3]"
    and "industry r1 \<noteq> industry r2" and "industry r1 \<noteq> industry r3"
    and "industry r2 \<noteq> industry r3"
    and "replies s (gen_calls s) = Answers t1"
    and "replies s (Suc (gen_calls s)) = Answers t2"
    and "replies s (Suc (Suc (gen_calls s))) = Answers t3"
    and "JSON_parse rt (cleanedText rt (candidate_text t1)) = Some d1" and "insight_document d1"
    and "JSON_parse rt (cleanedText rt (candidate_text t2)) = None"
    and "JSON_parse rt (cleanedText rt (candidate_text t3)) = Some d3" and "insight_document d3"
  shows "\<exists>p1 p3. weekly_data rt d1 = Inr p1 \<and> weekly_data rt d3 = Inr p3
           \<and> generateIndustryInsights rt s =
               (Inr (),
                s\<lparr>industryInsights :=
                     [r1\<lparr>payload := p1, lastUpdated := clock s, nextUpdate := clock s + week\<rparr>,
                      r2,
                      r3\<lparr>payload := p3, lastUpdated := clock s, nextUpdate := clock s + week\<rparr>],
                   gen_calls := gen_calls s + 3,
                   trace := trace s @
                     [StoreRead ''industryInsight'',
                      GeneratorCall (WeeklyInsightsPrompt (industry r1)),
                      StoreWrite ''industryInsight'',
                      GeneratorCall (WeeklyInsightsPrompt (industry r2)),
                      GeneratorCall (WeeklyInsightsPrompt (industry r3)),
                      StoreWrite ''industryInsight'']\<rparr>)"
proof -
  from weekly_data_document [OF assms(10)] obtain p1 where p1: "weekly_data rt d1 = Inr p1" ..
  from weekly_data_document [OF assms(13)] obtain p3 where p3: "weekly_data rt d3 = Inr p3" ..
  have "generateIndustryInsights rt s =
               (Inr (),
                s\<lparr>industryInsights :=
                     [r1\<lparr>payload := p1, lastUpdated := clock s, nextUpdate := clock s + week\<rparr>,
                      r2,
                      r3\<lparr>payload := p3, lastUpdated := clock s, nextUpdate := clock s + week\<rparr>],
                   gen_calls := gen_calls s + 3,
                   trace := trace s @
                     [StoreRead ''industryInsight'',
                      GeneratorCall (WeeklyInsightsPrompt (industry r1)),
                      StoreWrite ''industryInsight'',
                      GeneratorCall (WeeklyInsightsPrompt (industry r2)),
                      GeneratorCall (WeeklyInsightsPrompt (industry r3)),
                      StoreWrite ''industryInsight'']\<rparr>)"
    using assms(1-9) assms(11,12) p1 p3
    by (simp add: generateIndustryInsights_def generateContent_def industryInsight_update_def
          emit_def Let_def)
  with p1 p3 show ?thesis
    by blast
qed

lemma weekly_data_empty:
  "weekly_data rt (JObj []) =
     Inr \<lparr>salaryRanges = JArr [], growthRate = JNum (Finite 0), demandLevel = JStr ''MEDIUM'',
          topSkills = JArr [], marketOutlook = JStr ''NEUTRAL'', keyTrends = JArr [],
          recommendedSkills = JArr []\<rparr>"
  by (simp add: weekly_data_def get_prop_def normalizeEnum_def optional_toUpperCase_def
        array_includes_def or_else_def)

theorem weekly_job_skips_unparsable_witness:
  "\<exists>p1 p3. weekly_data runtime0 (JObj []) = Inr p1 \<and> weekly_data runtime0 (JObj []) = Inr p3
     \<and> generateIndustryInsights runtime0 weekly_world =
         (Inr (),
          weekly_world\<lparr>industryInsights :=
              [(row ''tech'' 0)\<lparr>payload := p1, lastUpdated := week, nextUpdate := week + week\<rparr>,
               row ''finance'' 0,
               (row ''health'' 0)\<lparr>payload := p3, lastUpdated := week, nextUpdate := week + week\<rparr>],
            gen_calls := 3,
            trace := [StoreRead ''industryInsight'',
                      GeneratorCall (WeeklyInsightsPrompt ''tech''),
                      StoreWrite ''industryInsight'',
                      GeneratorCall (WeeklyInsightsPrompt ''finance''),
                      GeneratorCall (WeeklyInsightsPrompt ''health''),
                      StoreWrite ''industryInsight'']\<rparr>)"
proof -
  have a: "db_up weekly_world"
    "industryInsights weekly_world = [row ''tech'' 0, row ''finance'' 0, row ''health'' 0]"
    "industry (row ''tech'' 0) \<noteq> industry (row ''finance'' 0)"
    "industry (row ''tech'' 0) \<noteq> industry (row ''health'' 0)"
    "industry (row ''finance'' 0) \<noteq> industry (row ''health'' 0)"
    "replies weekly_world (gen_calls weekly_world) = Answers (Some ''{}'')"
    "replies weekly_world (Suc (gen_calls weekly_world)) = Answers (Some ''not json'')"
    "replies weekly_world (Suc (Suc (gen_calls weekly_world))) = Answers (Some ''{}'')"
    "JSON_parse runtime0 (cleanedText runtime0 (candidate_text (Some ''{}''))) = Some (JObj [])"
    "insight_document (JObj [])"
    "JSON_parse runtime0 (cleanedText runtime0 (candidate_text (Some ''not json''))) = None"
    "JSON_parse runtime0 (cleanedText runtime0 (candidate_text (Some ''{}''))) = Some (JObj [])"
    "insight_document (JObj [])"
    by (simp_all add: weekly_world_def world0_def three_rows_def row_def candidate_text_def
          cleaned_examples parse0_examples insight_document_def enum_raw_def)
  have c: "gen_calls weekly_world = 0 \<and> trace weekly_world = [] \<and> clock weekly_world = week"
    by (simp add: weekly_world_def world0_def)
  from c weekly_job_skips_unparsable [OF a] show ?thesis
    by (simp add: row_def)
qed

subsection \<open>What a parse failure does\<close>

lemma weekly_skip:
  "replies s (gen_calls s) = Answers bt \<Longrightarrow>
   JSON_parse rt (cleanedText rt (candidate_text bt)) = None \<Longrightarrow>
   insights_loop rt (k # ks) s =
     insights_loop rt ks
       (s\<lparr>trace := trace s @ [GeneratorCall (WeeklyInsightsPrompt k)],
          gen_calls := Suc (gen_calls s)\<rparr>)"
  by (simp add: generateContent_def emit_def)

lemma insights_raise:
  "replies s (gen_calls s) = Answers (Some t) \<Longrightarrow>
   JSON_parse rt (cleaned_interactive rt t) = None \<Longrightarrow>
   generateAIInsights rt ind s =
     (Inl (FailedInsights SyntaxError),
      s\<lparr>gen_calls := Suc (gen_calls s),
        trace := trace s @ [GeneratorCall (InsightsPrompt ind)]\<rparr>)"
  by (simp add: generateAIInsights_def generateContent_def emit_def)

lemma safeGenerate_after_read:
  "replies s (gen_calls s) = Answers x \<Longrightarrow>
   safeGenerate p r (emit e s) = (Inr x, snd (generateContent p (emit e s)))"
  by (rule safeGenerate_answers) (simp add: emit_def)

lemma quiz_placeholder:
  "replies s (gen_calls s) = Answers (Some t) \<Longrightarrow> JSON_parse rt t = None \<Longrightarrow>
   identity s = Some uid \<Longrightarrow> db_up s \<Longrightarrow>
   find (\<lambda>x. clerkUserId x = uid) (users s) = Some u \<Longrightarrow>
   generateQuiz rt s =
     (Inr quiz_fallback,
      s\<lparr>gen_calls := Suc (gen_calls s),
        trace := trace s @ [StoreRead ''user'',
                            GeneratorCall (QuizPrompt (user_industry u))]\<rparr>)"
  by (simp add: generateQuiz_def auth_def user_findUnique_def safeGenerate_after_read)
     (simp add: generateContent_def emit_def)

lemma letter_raw:
  "replies s (gen_calls s) = Answers (Some t) \<Longrightarrow> JSON_parse rt t = None \<Longrightarrow>
   identity s = Some uid \<Longrightarrow> db_up s \<Longrightarrow>
   find (\<lambda>x. clerkUserId x = uid) (users s) = Some u \<Longrightarrow>
   generateCoverLetter rt d s =
     (Inr \<lparr>jobTitle = jobTitle d, companyName = companyName d,
           jobDescription = jobDescription d, letter_id = next_id s,
           content = JStr t, status = ''completed'', letter_userId = user_id u\<rparr>,
      s\<lparr>coverLetters := coverLetters s @
            [\<lparr>jobTitle = jobTitle d, companyName = companyName d,
              jobDescription = jobDescription d, letter_id = next_id s,
              content = JStr t, status = ''completed'', letter_userId = user_id u\<rparr>],
        next_id := Suc (next_id s), gen_calls := Suc (gen_calls s),
        trace := trace s @ [StoreRead ''user'', GeneratorCall (CoverLetterPrompt d u),
                            StoreWrite ''coverLetter'']\<rparr>)"
  by (simp add: generateCoverLetter_def auth_def user_findUnique_def generateContent_def
        emit_def coverLetter_create_def contentString_def Let_def)

lemma tip_fixed:
  "replies s (gen_calls s) = Answers (Some t) \<Longrightarrow> JSON_parse rt t = None \<Longrightarrow>
   identity s = Some uid \<Longrightarrow> db_up s \<Longrightarrow>
   find (\<lambda>x. clerkUserId x = uid) (users s) = Some u \<Longrightarrow>
   questionResults qs as 0 = Inr rs \<Longrightarrow> filter (\<lambda>q. \<not> isCorrect q) rs = w # ws \<Longrightarrow>
   wrongQuestionsText rt (w # ws) = Inr ls \<Longrightarrow>
   saveQuizResult rt qs as score s =
     (Inr \<lparr>assessment_id = next_id s, assessment_userId = user_id u, quizScore = score,
           questions = rs, category = ''Technical'', improvementTip = fallback_tip\<rparr>,
      s\<lparr>assessments := assessments s @
            [\<lparr>assessment_id = next_id s, assessment_userId = user_id u, quizScore = score,
              questions = rs, category = ''Technical'', improvementTip = fallback_tip\<rparr>],
        next_id := Suc (next_id s), gen_calls := Suc (gen_calls s),
        trace := trace s @ [StoreRead ''user'', GeneratorCall (TipPrompt (user_industry u) ls),
                            StoreWrite ''assessment'']\<rparr>)"
  by (simp add: saveQuizResult_def auth_def user_findUnique_def improvementTip_of_def
        safeGenerate_after_read del: wrongQuestionsText.simps)
     (simp add: generateContent_def emit_def assessment_create_def Let_def)

text \<open>
  C3, as amended. Let the generator answer an operation's call with a text that does not
  parse in the form the operation parses it in: cleaned by the scheduled job, cleaned by
  \<open>generateAIInsights\<close>, raw in the three others. Then
  \<^item> the scheduled job, whoever runs it, skips the industry: the loop goes on with the next
    one after the generator call alone, with no store write;
  \<^item> \<open>generateAIInsights\<close>, the generation behind \<open>getIndustryInsights\<close> and \<open>updateUser\<close>,
    raises "Failed to generate AI insights" and substitutes nothing;
  \<^item> for a signed-in caller with a user row and a store that answers, \<open>generateQuiz\<close> returns
    its hard-coded placeholder, \<open>generateCoverLetter\<close> stores the raw text as the content
    of the letter, and \<open>saveQuizResult\<close>, when there are wrong answers to ask a tip for,
    stores its fixed tip.
  No operation returns or stores a payload made up in place of the parsed one.
\<close>

theorem parse_failure_policies:
  "(replies s (gen_calls s) = Answers bt
      \<and> JSON_parse rt (cleanedText rt (candidate_text bt)) = None
    \<longrightarrow> insights_loop rt (k # ks) s =
          insights_loop rt ks
            (s\<lparr>trace := trace s @ [GeneratorCall (WeeklyInsightsPrompt k)],
               gen_calls := Suc (gen_calls s)\<rparr>))
   \<and> (replies s (gen_calls s) = Answers (Some t)
      \<and> JSON_parse rt (cleaned_interactive rt t) = None
    \<longrightarrow> generateAIInsights rt ind s =
          (Inl (FailedInsights SyntaxError),
           s\<lparr>gen_calls := Suc (gen_calls s),
             trace := trace s @ [GeneratorCall (InsightsPrompt ind)]\<rparr>))
   \<and> (replies s (gen_calls s) = Answers (Some t) \<and> JSON_parse rt t = None
      \<and> identity s = Some uid \<and> db_up s
      \<and> find (\<lambda>x. clerkUserId x = uid) (users s) = Some u
    \<longrightarrow> generateQuiz rt s =
          (Inr quiz_fallback,
           s\<lparr>gen_calls := Suc (gen_calls s),
             trace := trace s @ [StoreRead ''user'',
                                 GeneratorCall (QuizPrompt (user_industry u))]\<rparr>)
        \<and> generateCoverLetter rt d s =
          (Inr \<lparr>jobTitle = jobTitle d, companyName = companyName d,
                jobDescription = jobDescription d, letter_id = next_id s,
                content = JStr t, status = ''completed'', letter_userId = user_id u\<rparr>,
           s\<lparr>coverLetters := coverLetters s @
                 [\<lparr>jobTitle = jobTitle d, companyName = companyName d,
                   jobDescription = jobDescription d, letter_id = next_id s,
                   content = JStr t, status = ''completed'', letter_userId = user_id u\<rparr>],
             next_id := Suc (next_id s), gen_calls := Suc (gen_calls s),
             trace := trace s @ [StoreRead ''user'', GeneratorCall (CoverLetterPrompt d u),
                                 StoreWrite ''coverLetter'']\<rparr>)
        \<and> (questionResults qs as 0 = Inr rs \<and> filter (\<lambda>q. \<not> isCorrect q) rs = w # ws
             \<and> wrongQuestionsText rt (w # ws) = Inr ls
           \<longrightarrow> saveQuizResult rt qs as score s =
                 (Inr \<lparr>assessment_id = next_id s, assessment_userId = user_id u,
                       quizScore = score, questions = rs, category = ''Technical'',
                       improvementTip = fallback_tip\<rparr>,
                  s\<lparr>assessments := assessments s @
                        [\<lparr>assessment_id = next_id s, assessment_userId = user_id u,
                          quizScore = score, questions = rs, category = ''Technical'',
                          improvementTip = fallback_tip\<rparr>],
                    next_id := Suc (next_id s), gen_calls := Suc (gen_calls s),
                    trace := trace s @ [StoreRead ''user'',
                                        GeneratorCall (TipPrompt (user_industry u) ls),
                                        StoreWrite ''assessment'']\<rparr>)))"
proof (intro conjI impI)
  assume "replies s (gen_calls s) = Answers bt
      \<and> JSON_parse rt (cleanedText rt (candidate_text bt)) = None"
  then show "insights_loop rt (k # ks) s =
          insights_loop rt ks
            (s\<lparr>trace := trace s @ [GeneratorCall (WeeklyInsightsPrompt k)],
               gen_calls := Suc (gen_calls s)\<rparr>)"
    using weekly_skip by blast
next
  assume "replies s (gen_calls s) = Answers (Some t)
      \<and> JSON_parse rt (cleaned_interactive rt t) = None"
  then show "generateAIInsights rt ind s =
          (Inl (FailedInsights SyntaxError),
           s\<lparr>gen_calls := Suc (gen_calls s),
             trace := trace s @ [GeneratorCall (InsightsPrompt ind)]\<rparr>)"
    using insights_raise by blast
next
  assume h: "replies s (gen_calls s) = Answers (Some t) \<and> JSON_parse rt t = None
      \<and> identity s = Some uid \<and> db_up s
      \<and> find (\<lambda>x. clerkUserId x = uid) (users s) = Some u"
  then show "generateQuiz rt s =
          (Inr quiz_fallback,
           s\<lparr>gen_calls := Suc (gen_calls s),
             trace := trace s @ [StoreRead ''user'',
                                 GeneratorCall (QuizPrompt (user_industry u))]\<rparr>)"
    using quiz_placeholder by blast
  from h show "generateCoverLetter rt d s =
          (Inr \<lparr>jobTitle = jobTitle d, companyName = companyName d,
                jobDescription = jobDescription d, letter_id = next_id s,
                content = JStr t, status = ''completed'', letter_userId = user_id u\<rparr>,
           s\<lparr>coverLetters := coverLetters s @
                 [\<lparr>jobTitle = jobTitle d, companyName = companyName d,
                   jobDescription = jobDescription d, letter_id = next_id s,
                   content = JStr t, status = ''completed'', letter_userId = user_id u\<rparr>],
             next_id := Suc (next_id s), gen_calls := Suc (gen_calls s),
             trace := trace s @ [StoreRead ''user'', GeneratorCall (CoverLetterPrompt d u),
                                 StoreWrite ''coverLetter'']\<rparr>)"
    using letter_raw by blast
  assume "questionResults qs as 0 = Inr rs \<and> filter (\<lambda>q. \<not> isCorrect q) rs = w # ws
             \<and> wrongQuestionsText rt (w # ws) = Inr ls"
  with h show "saveQuizResult rt qs as score s =
                 (Inr \<lparr>assessment_id = next_id s, assessment_userId = user_id u,
                       quizScore = score, questions = rs, category = ''Technical'',
                       improvementTip = fallback_tip\<rparr>,
                  s\<lparr>assessments := assessments s @
                        [\<lparr>assessment_id = next_id s, assessment_userId = user_id u,
                          quizScore = score, questions = rs, category = ''Technical'',
                          improvementTip = fallback_tip\<rparr>],
                    next_id := Suc (next_id s), gen_calls := Suc (gen_calls s),
                    trace := trace s @ [StoreRead ''user'',
                                        GeneratorCall (TipPrompt (user_industry u) ls),
                                        StoreWrite ''assessment'']\<rparr>)"
    using tip_fixed by blast
qed

theorem parse_failure_policies_witness:
  "insights_loop runtime0 [''tech''] weekly_unparsable_world =
     (Inr (),
      weekly_unparsable_world\<lparr>trace := [GeneratorCall (WeeklyInsightsPrompt ''tech'')],
        gen_calls := 1\<rparr>)
   \<and> generateAIInsights runtime0 (Some ''tech'') unparsable_world =
     (Inl (FailedInsights SyntaxError),
      unparsable_world\<lparr>gen_calls := 1,
        trace := [GeneratorCall (InsightsPrompt (Some ''tech''))]\<rparr>)
   \<and> generateQuiz runtime0 fenced_world =
     (Inr quiz_fallback,
      fenced_world\<lparr>gen_calls := 1,
        trace := [StoreRead ''user'', GeneratorCall (QuizPrompt (Some ''tech''))]\<rparr>)
   \<and> fst (generateCoverLetter runtime0 letter0 fenced_world) =
     Inr \<lparr>jobTitle = ''Engineer'', companyName = ''Acme'', jobDescription = ''Build'',
          letter_id = 0, content = JStr fenced, status = ''completed'',
          letter_userId = ''u1''\<rparr>
   \<and> fst (saveQuizResult runtime0 [question1] [JStr ''B''] (JNum (Finite 0))
          unparsable_world) =
     Inr \<lparr>assessment_id = 0, assessment_userId = ''u1'', quizScore = JNum (Finite 0),
          questions = [result1], category = ''Technical'', improvementTip = fallback_tip\<rparr>"
proof -
  have job: "replies weekly_unparsable_world (gen_calls weekly_unparsable_world)
               = Answers (Some ''not json'')
      \<and> JSON_parse runtime0 (cleanedText runtime0 (candidate_text (Some ''not json''))) = None"
    by (simp add: weekly_unparsable_world_def weekly_world_def world0_def candidate_text_def
          cleaned_examples parse0_examples)
  have raw: "replies unparsable_world (gen_calls unparsable_world) = Answers (Some ''not json'')
      \<and> JSON_parse runtime0 (cleaned_interactive runtime0 ''not json'') = None
      \<and> JSON_parse runtime0 ''not json'' = None
      \<and> identity unparsable_world = Some ''clerk_1'' \<and> db_up unparsable_world
      \<and> find (\<lambda>x. clerkUserId x = ''clerk_1'') (users unparsable_world) = Some alice
      \<and> questionResults [question1] [JStr ''B''] 0 = Inr [result1]
      \<and> filter (\<lambda>q. \<not> isCorrect q) [result1] = result1 # []
      \<and> wrongQuestionsText runtime0 (result1 # []) = Inr [''Q1'']"
    by (simp add: unparsable_world_def world0_def alice_def cleaned_examples parse0_examples
          question1_def result1_def questionResult_of_def get_prop_def index_def
          strict_eq_def)
  have fen: "replies fenced_world (gen_calls fenced_world) = Answers (Some fenced)
      \<and> JSON_parse runtime0 fenced = None
      \<and> identity fenced_world = Some ''clerk_1'' \<and> db_up fenced_world
      \<and> find (\<lambda>x. clerkUserId x = ''clerk_1'') (users fenced_world) = Some alice"
    by (simp add: fenced_world_def world0_def alice_def parse0_examples)
  have vals: "gen_calls weekly_unparsable_world = 0 \<and> trace weekly_unparsable_world = []
      \<and> gen_calls unparsable_world = 0 \<and> trace unparsable_world = []
      \<and> next_id unparsable_world = 0 \<and> gen_calls fenced_world = 0
      \<and> trace fenced_world = [] \<and> next_id fenced_world = 0
      \<and> user_industry alice = Some ''tech'' \<and> user_id alice = ''u1''"
    by (simp add: weekly_unparsable_world_def weekly_world_def unparsable_world_def
          fenced_world_def world0_def alice_def)
  from job vals
    parse_failure_policies [where s = weekly_unparsable_world and bt = "Some ''not json''"
      and rt = runtime0 and k = "''tech''" and ks = "[]"]
  have a: "insights_loop runtime0 [''tech''] weekly_unparsable_world =
     (Inr (),
      weekly_unparsable_world\<lparr>trace := [GeneratorCall (WeeklyInsightsPrompt ''tech'')],
        gen_calls := 1\<rparr>)"
    by simp
  from raw vals
    parse_failure_policies [where s = unparsable_world and t = "''not json''"
      and rt = runtime0 and ind = "Some ''tech''" and uid = "''clerk_1''" and u = alice
      and qs = "[question1]" and as = "[JStr ''B'']" and rs = "[result1]" and w = result1
      and ws = "[]" and ls = "[''Q1'']" and score = "JNum (Finite 0)"]
  have b: "generateAIInsights runtime0 (Some ''tech'') unparsable_world =
     (Inl (FailedInsights SyntaxError),
      unparsable_world\<lparr>gen_calls := 1,
        trace := [GeneratorCall (InsightsPrompt (Some ''tech''))]\<rparr>)
   \<and> fst (saveQuizResult runtime0 [question1] [JStr ''B''] (JNum (Finite 0))
          unparsable_world) =
     Inr \<lparr>assessment_id = 0, assessment_userId = ''u1'', quizScore = JNum (Finite 0),
          questions = [result1], category = ''Technical'', improvementTip = fallback_tip\<rparr>"
    by simp
  from fen vals
    parse_failure_policies [where s = fenced_world and t = fenced and rt = runtime0
      and uid = "''clerk_1''" and u = alice and d = letter0]
  have c: "generateQuiz runtime0 fenced_world =
     (Inr quiz_fallback,
      fenced_world\<lparr>gen_calls := 1,
        trace := [StoreRead ''user'', GeneratorCall (QuizPrompt (Some ''tech''))]\<rparr>)
   \<and> fst (generateCoverLetter runtime0 letter0 fenced_world) =
     Inr \<lparr>jobTitle = ''Engineer'', companyName = ''Acme'', jobDescription = ''Build'',
          letter_id = 0, content = JStr fenced, status = ''completed'',
          letter_userId = ''u1''\<rparr>"
    by (simp add: letter0_def)
  from a b c show ?thesis
    by simp
qed

text \<open>
  C3 as stated fails on the interactive insights path: when the text does not parse,
  \<open>getIndustryInsights\<close> raises the error of \<open>generateAIInsights\<close>; no fallback is
  substituted.
\<close>

theorem getIndustryInsights_raises_on_unparsable:
  "JSON_parse runtime0 (cleaned_interactive runtime0 ''not json'') = None
   \<and> replies unparsable_world (gen_calls unparsable_world) = Answers (Some ''not json'')
   \<and> getIndustryInsights runtime0 unparsable_world =
       (Inl (FailedInsights SyntaxError),
        unparsable_world\<lparr>gen_calls := 1,
          trace := [StoreRead ''user'', GeneratorCall (InsightsPrompt (Some ''tech''))]\<rparr>)"
  by (simp add: getIndustryInsights_def auth_def user_findUnique_def refreshInsight_def
        generateAIInsights_def generateContent_def emit_def insight_of_def
        unparsable_world_def world0_def alice_def cleaned_examples parse0_examples)

subsection \<open>The scheduled job's enum normalisation\<close>

text \<open>
  X1. \<open>normalizeEnum\<close> on a string gives its uppercase form when that is an allowed value
  and the fallback otherwise; on \<^verbatim>\<open>null\<close> and on an absent value it gives the fallback.
\<close>

theorem normalizeEnum_strings:
  "normalizeEnum rt (JStr s) allowed fallback =
     Inr (JStr (if toUpperCase rt s \<in> set allowed then toUpperCase rt s else fallback))
   \<and> normalizeEnum rt JNull allowed fallback = Inr (JStr fallback)
   \<and> normalizeEnum rt JUndefined allowed fallback = Inr (JStr fallback)"
  by (simp add: normalizeEnum_def optional_toUpperCase_def array_includes_def)

lemma normalizeEnum_member:
  "normalizeEnum rt v allowed fallback = Inr u \<Longrightarrow> fallback \<in> set allowed \<Longrightarrow>
   u \<in> JStr ` set allowed"
  by (cases v)
     (auto simp: normalizeEnum_def optional_toUpperCase_def array_includes_def
           split: if_splits)

text \<open>
  X2. Whenever the scheduled job's normalisation of a document succeeds, the two enum
  fields of the data it writes are members of their allowed sets.
\<close>

theorem weekly_data_enum_fields:
  assumes "weekly_data rt d = Inr p"
  shows "demandLevel p \<in> JStr ` set [''HIGH'', ''MEDIUM'', ''LOW'']
       \<and> marketOutlook p \<in> JStr ` set [''POSITIVE'', ''NEUTRAL'', ''NEGATIVE'']"
proof -
  from assms obtain a b
    where a: "normalizeEnum rt (own d ''demandLevel'') [''HIGH'', ''MEDIUM'', ''LOW''] ''MEDIUM'' = Inr a"
      and b: "normalizeEnum rt (own d ''marketOutlook'') [''POSITIVE'', ''NEUTRAL'', ''NEGATIVE'']
                ''NEUTRAL'' = Inr b"
      and p: "demandLevel p = a" "marketOutlook p = b"
    by (auto simp: weekly_data_def get_prop_def split: sum.splits if_splits)
  from normalizeEnum_member [OF a] normalizeEnum_member [OF b] p show ?thesis
    by simp
qed

theorem weekly_data_enum_fields_witness:
  "demandLevel \<lparr>salaryRanges = JArr [], growthRate = JNum (Finite 0), demandLevel = JStr ''MEDIUM'',
          topSkills = JArr [], marketOutlook = JStr ''NEUTRAL'', keyTrends = JArr [],
          recommendedSkills = JArr []\<rparr> \<in> JStr ` set [''HIGH'', ''MEDIUM'', ''LOW'']
   \<and> marketOutlook \<lparr>salaryRanges = JArr [], growthRate = JNum (Finite 0), demandLevel = JStr ''MEDIUM'',
          topSkills = JArr [], marketOutlook = JStr ''NEUTRAL'', keyTrends = JArr [],
          recommendedSkills = JArr []\<rparr> \<in> JStr ` set [''POSITIVE'', ''NEUTRAL'', ''NEGATIVE'']"
  by (rule weekly_data_enum_fields [OF weekly_data_empty])

end
